theory Spec2Isabelle
  imports Complex_Main "HOL-Library.Multiset" "HOL-Library.AList" "HOL-Library.Log_Nat"
begin

section \<open>Outcome calculator (src/utils/game.ts)\<close>

text \<open>
  JavaScript numbers are IEEE 754 doubles. A finite double is a rational number, and
  every arithmetic operation returns the exact result rounded to the nearest number with
  53 significant bits, ties to the even one. \<open>binade x\<close> is the exponent of the power
  of two at or below a positive \<open>x\<close>, and \<open>rnd\<close> is the rounding. The exponent range
  is not bounded here, so the model is that of doubles as long as the results stay
  between \<open>2\<^sup>-\<^sup>1\<^sup>0\<^sup>2\<^sup>2\<close> and \<open>2\<^sup>1\<^sup>0\<^sup>2\<^sup>4\<close> in magnitude, as they do in the operations
  below on whole-number counts up to \<open>2\<^sup>1\<^sup>0\<^sup>0\<^sup>0\<close>. Infinities and NaN are not
  represented: the one division by zero is excluded by the test \<^verbatim>\<open>totalVotes === 0\<close>.
\<close>

definition roundHalfEven :: "rat \<Rightarrow> int" where
  "roundHalfEven x =
     (let f = \<lfloor>x\<rfloor>; r = x - of_int f
      in if r < 1 / 2 then f else if 1 / 2 < r then f + 1 else if even f then f else f + 1)"

definition binade :: "rat \<Rightarrow> int" where
  "binade x =
     (let (p, q) = quotient_of x; k = bitlen p - bitlen q
      in if 2 powi k \<le> x then k else k - 1)"

definition rnd :: "rat \<Rightarrow> rat" where
  "rnd x =
     (if x = 0 then 0
      else let e = binade \<bar>x\<bar> - 52
           in sgn x * of_int (roundHalfEven (\<bar>x\<bar> / 2 powi e)) * 2 powi e)"

datatype Outcome = AllCooperate | AllDefect | Mixed

record CalcResult =
  outcome :: Outcome
  pointsForCooperators :: int
  pointsForDefectors :: int

text \<open>The members of \<^verbatim>\<open>GAME_CONFIG\<close> (src/utils/constants.ts) the calculator reads.\<close>

definition COOPERATE_THRESHOLD :: rat where "COOPERATE_THRESHOLD = 70"
definition DEFECT_THRESHOLD :: rat where "DEFECT_THRESHOLD = 70"
definition ALL_COOPERATE_POINTS :: int where "ALL_COOPERATE_POINTS = 3"
definition ALL_DEFECT_POINTS :: int where "ALL_DEFECT_POINTS = 1"
definition MIXED_DEFECT_POINTS :: int where "MIXED_DEFECT_POINTS = 5"
definition MIXED_COOPERATE_POINTS :: int where "MIXED_COOPERATE_POINTS = 0"

text \<open>
  \<^verbatim>\<open>calculateResults(cooperateCount, defectCount)\<close>; the arguments are doubles. The sum,
  the two quotients and the two products are each rounded.
\<close>

definition calculateResults :: "rat \<Rightarrow> rat \<Rightarrow> CalcResult" where
  "calculateResults cooperateCount defectCount =
     (let totalVotes = rnd (cooperateCount + defectCount) in
      if totalVotes = 0 then
        \<lparr>outcome = Mixed, pointsForCooperators = 0, pointsForDefectors = 0\<rparr>
      else
        let cooperatePercent = rnd (rnd (cooperateCount / totalVotes) * 100);
            defectPercent = rnd (rnd (defectCount / totalVotes) * 100)
        in if cooperatePercent \<ge> COOPERATE_THRESHOLD then
             \<lparr>outcome = AllCooperate,
              pointsForCooperators = ALL_COOPERATE_POINTS,
              pointsForDefectors = ALL_COOPERATE_POINTS\<rparr>
           else if defectPercent \<ge> DEFECT_THRESHOLD then
             \<lparr>outcome = AllDefect,
              pointsForCooperators = ALL_DEFECT_POINTS,
              pointsForDefectors = ALL_DEFECT_POINTS\<rparr>
           else
             \<lparr>outcome = Mixed,
              pointsForCooperators = MIXED_COOPERATE_POINTS,
              pointsForDefectors = MIXED_DEFECT_POINTS\<rparr>)"


section \<open>Streaks and history (src/utils/streaks.ts)\<close>

text \<open>
  \<^verbatim>\<open>Choice = 'cooperate' | 'defect' | null\<close>; \<open>NoChoice\<close> is \<^verbatim>\<open>null\<close>.
\<close>

datatype Choice = Cooperate | Defect | NoChoice

record HistoryItem =
  day :: string
  choice :: Choice

text \<open>
  Values the program reads back from storage are untyped at run time, so history entries
  are JSON values. \<open>field\<close> is property access on a value that is not \<^verbatim>\<open>null\<close>
  (\<open>None\<close> is \<^verbatim>\<open>undefined\<close>); \<open>truthy\<close> is JavaScript's boolean coercion.
\<close>

datatype json =
    JNull
  | JBool bool
  | JNum rat
  | JStr string
  | JArr "json list"
  | JObj "(string \<times> json) list"

fun field :: "json \<Rightarrow> string \<Rightarrow> json option" where
  "field (JObj fs) k = map_of fs k"
| "field _ k = None"

fun truthy :: "json \<Rightarrow> bool" where
  "truthy JNull = False"
| "truthy (JBool b) = b"
| "truthy (JNum n) = (n \<noteq> 0)"
| "truthy (JStr s) = (s \<noteq> [])"
| "truthy (JArr _) = True"
| "truthy (JObj _) = True"

fun choiceJson :: "Choice \<Rightarrow> json" where
  "choiceJson Cooperate = JStr ''cooperate''"
| "choiceJson Defect = JStr ''defect''"
| "choiceJson NoChoice = JNull"

definition itemJson :: "HistoryItem \<Rightarrow> json" where
  "itemJson h = JObj [(''day'', JStr (day h)), (''choice'', choiceJson (choice h))]"

text \<open>\<^verbatim>\<open>isValidChoice(choice: any)\<close>: strict equality with one of the two strings.\<close>

definition isValidChoice :: "json option \<Rightarrow> bool" where
  "isValidChoice c = (c = Some (JStr ''cooperate'') \<or> c = Some (JStr ''defect''))"

text \<open>The choice of an entry that passed the check \<^verbatim>\<open>choice === null || isValidChoice(choice)\<close>.\<close>

definition choiceOf :: "json option \<Rightarrow> Choice" where
  "choiceOf c = (if c = Some (JStr ''cooperate'') then Cooperate
                 else if c = Some (JStr ''defect'') then Defect else NoChoice)"

definition isDigit :: "char \<Rightarrow> bool" where
  "isDigit c = (c \<in> set ''0123456789'')"

text \<open>The regular expression \<^verbatim>\<open>/^\d{4}-\d{2}-\d{2}$/\<close>.\<close>

definition isDayString :: "string \<Rightarrow> bool" where
  "isDayString s =
     (case s of
        [y1, y2, y3, y4, s1, m1, m2, s2, d1, d2] \<Rightarrow>
          isDigit y1 \<and> isDigit y2 \<and> isDigit y3 \<and> isDigit y4 \<and> s1 = CHR ''-'' \<and>
          isDigit m1 \<and> isDigit m2 \<and> s2 = CHR ''-'' \<and> isDigit d1 \<and> isDigit d2
      | _ \<Rightarrow> False)"

text \<open>
  \<^verbatim>\<open>parseHistoryEntry\<close>. \<open>jsonParse\<close> is the runtime's \<^verbatim>\<open>JSON.parse\<close>, with
  \<open>None\<close> for a thrown SyntaxError (caught and ignored by the source). A text that
  parses to a valid entry gives a new object with the two properties \<^verbatim>\<open>day\<close> and
  \<^verbatim>\<open>choice\<close> of the parsed value; any other text that has the form of a day gives that
  day with the choice \<^verbatim>\<open>null\<close>.
\<close>

definition parseHistoryEntry :: "(string \<Rightarrow> json option) \<Rightarrow> string \<Rightarrow> json option" where
  "parseHistoryEntry jsonParse entry =
     (let fromJson =
            (case jsonParse entry of
               None \<Rightarrow> None
             | Some parsed \<Rightarrow>
                 (case (if truthy parsed then field parsed ''day'' else None) of
                    Some (JStr d) \<Rightarrow>
                      (case field parsed ''choice'' of
                         Some c \<Rightarrow>
                           if c = JNull \<or> isValidChoice (Some c)
                           then Some (JObj [(''day'', JStr d), (''choice'', c)])
                           else None
                       | None \<Rightarrow> None)
                  | _ \<Rightarrow> None))
      in case fromJson of
           Some h \<Rightarrow> Some h
         | None \<Rightarrow>
             if isDayString entry
             then Some (JObj [(''day'', JStr entry), (''choice'', JNull)])
             else None)"

text \<open>
  \<^verbatim>\<open>normalizeHistoryEntry\<close>: a string goes through \<open>parseHistoryEntry\<close>; any other
  value is returned as it is (with whatever other properties it has) if it has a string
  \<^verbatim>\<open>day\<close> and a \<^verbatim>\<open>choice\<close> that is \<^verbatim>\<open>null\<close>, \<^verbatim>\<open>'cooperate'\<close> or \<^verbatim>\<open>'defect'\<close>.
  Whether the day is a date is not looked at.
\<close>

definition normalizeHistoryEntry :: "(string \<Rightarrow> json option) \<Rightarrow> json \<Rightarrow> json option" where
  "normalizeHistoryEntry jsonParse entry =
     (case entry of
        JStr s \<Rightarrow> parseHistoryEntry jsonParse s
      | _ \<Rightarrow>
          (case (if truthy entry then field entry ''day'' else None) of
             Some (JStr d) \<Rightarrow>
               if field entry ''choice'' = Some JNull \<or> isValidChoice (field entry ''choice'')
               then Some entry
               else None
           | _ \<Rightarrow> None))"

text \<open>
  A normalized entry as \<open>calculateStreak\<close> is typed to see it: the properties \<^verbatim>\<open>day\<close>
  and \<^verbatim>\<open>choice\<close> of the object.
\<close>

definition historyItem :: "json \<Rightarrow> HistoryItem" where
  "historyItem entry =
     \<lparr>day = (case field entry ''day'' of Some (JStr d) \<Rightarrow> d | _ \<Rightarrow> []),
      choice = choiceOf (field entry ''choice'')\<rparr>"

subsection \<open>calculateStreak\<close>

text \<open>
  Time is in milliseconds since the epoch. \<open>dateMs s\<close> is the runtime's
  \<^verbatim>\<open>new Date(s).getTime()\<close>, with \<open>None\<close> for NaN (an invalid date); \<open>now\<close> is the
  clock read by \<^verbatim>\<open>new Date()\<close>. \<open>utcMidnight\<close> is \<^verbatim>\<open>setUTCHours(0, 0, 0, 0)\<close>.
\<close>

definition MS_PER_DAY :: int where
  "MS_PER_DAY = 1000 * 60 * 60 * 24"

definition utcMidnight :: "int \<Rightarrow> int" where
  "utcMidnight ms = (ms div MS_PER_DAY) * MS_PER_DAY"

text \<open>
  \<^verbatim>\<open>Array.prototype.sort\<close> is stable; a comparator result of NaN counts as 0.
  Insertion from the right is a stable sort, and every stable sort returns the same list
  when the comparator is a consistent order: when all dates are valid, and also when every
  comparison gives 0. With some days that are dates and some that are not, the comparator
  is not consistent and the order the runtime returns is implementation-defined; nothing
  below that depends on the order is stated for such a history.
\<close>

fun insertBy :: "('a \<Rightarrow> 'a \<Rightarrow> int) \<Rightarrow> 'a \<Rightarrow> 'a list \<Rightarrow> 'a list" where
  "insertBy cmp x [] = [x]"
| "insertBy cmp x (y # ys) = (if cmp x y \<le> 0 then x # y # ys else y # insertBy cmp x ys)"

definition sortBy :: "('a \<Rightarrow> 'a \<Rightarrow> int) \<Rightarrow> 'a list \<Rightarrow> 'a list" where
  "sortBy cmp xs = foldr (insertBy cmp) xs []"

text \<open>The comparator \<^verbatim>\<open>(a, b) => new Date(b.day).getTime() - new Date(a.day).getTime()\<close>.\<close>

definition byDayDescending :: "(string \<Rightarrow> int option) \<Rightarrow> HistoryItem \<Rightarrow> HistoryItem \<Rightarrow> int" where
  "byDayDescending dateMs a b =
     (case (dateMs (day b), dateMs (day a)) of
        (Some tb, Some ta) \<Rightarrow> tb - ta
      | _ \<Rightarrow> 0)"

text \<open>The first loop: entry \<open>i\<close> of the sorted history must fall on the day \<open>i\<close> days before today.\<close>

fun currentStreakLoop ::
  "(string \<Rightarrow> int option) \<Rightarrow> int \<Rightarrow> HistoryItem list \<Rightarrow> int \<Rightarrow> int \<Rightarrow> int" where
  "currentStreakLoop dateMs today [] i currentStreak = currentStreak"
| "currentStreakLoop dateMs today (h # rest) i currentStreak =
     (let historyDate = map_option utcMidnight (dateMs (day h));
          expectedDate = utcMidnight (today - i * MS_PER_DAY)
      in if historyDate = Some expectedDate
         then currentStreakLoop dateMs today rest (i + 1) (currentStreak + 1)
         else currentStreak)"

text \<open>
  The second loop, as a function of \<^verbatim>\<open>lastDate\<close> (\<open>None\<close> is \<^verbatim>\<open>null\<close>, \<open>Some None\<close>
  an invalid date), \<^verbatim>\<open>tempStreak\<close> and \<^verbatim>\<open>longestStreak\<close>; it returns the last two.
\<close>

fun longestStreakLoop ::
  "(string \<Rightarrow> int option) \<Rightarrow> HistoryItem list \<Rightarrow> int option option \<Rightarrow> int \<Rightarrow> int \<Rightarrow> int \<times> int" where
  "longestStreakLoop dateMs [] lastDate tempStreak longestStreak = (tempStreak, longestStreak)"
| "longestStreakLoop dateMs (item # rest) lastDate tempStreak longestStreak =
     (let currentDate = map_option utcMidnight (dateMs (day item)) in
      case lastDate of
        None \<Rightarrow> longestStreakLoop dateMs rest (Some currentDate) 1 longestStreak
      | Some previous \<Rightarrow>
          (let daysDiff =
                 (case (previous, currentDate) of
                    (Some l, Some c) \<Rightarrow> Some ((l - c) div MS_PER_DAY)
                  | _ \<Rightarrow> None)
           in if daysDiff = Some 1
              then longestStreakLoop dateMs rest (Some currentDate) (tempStreak + 1) longestStreak
              else longestStreakLoop dateMs rest (Some currentDate) 1 (max longestStreak tempStreak)))"

record Streaks =
  currentStreak :: int
  longestStreak :: int

definition calculateStreak ::
  "(string \<Rightarrow> int option) \<Rightarrow> int \<Rightarrow> HistoryItem list \<Rightarrow> Streaks" where
  "calculateStreak dateMs now history =
     (if length history = 0 then \<lparr>currentStreak = 0, longestStreak = 0\<rparr>
      else
        let sortedHistory = sortBy (byDayDescending dateMs) history;
            today = utcMidnight now;
            current = currentStreakLoop dateMs today sortedHistory 0 0;
            (tempStreak, longest) = longestStreakLoop dateMs sortedHistory None 0 0
        in \<lparr>currentStreak = current, longestStreak = max longest tempStreak\<rparr>)"

subsection \<open>updateUserStats\<close>

text \<open>
  \<^verbatim>\<open>UserStats\<close> carries the two streak fields and five more; \<^verbatim>\<open>history\<close> holds
  \<^verbatim>\<open>HistoryEntry\<close> values (strings or objects) as they come out of storage. The
  numbers are whole numbers, and the additions are exact as long as the sums stay within
  \<open>2\<^sup>5\<^sup>3\<close> in magnitude.
\<close>

record UserStats = Streaks +
  totalScore :: int
  totalVotes :: int
  cooperateCount :: int
  defectCount :: int
  history :: "json list"

definition updateUserStats ::
  "(string \<Rightarrow> json option) \<Rightarrow> (string \<Rightarrow> int option) \<Rightarrow> int \<Rightarrow>
   UserStats \<Rightarrow> HistoryItem \<Rightarrow> int \<Rightarrow> UserStats" where
  "updateUserStats jsonParse dateMs now currentStats newVote points =
     (let history0 = history currentStats @ [itemJson \<lparr>day = day newVote, choice = choice newVote\<rparr>];
          normalizedHistory = List.map_filter (normalizeHistoryEntry jsonParse) history0;
          s = calculateStreak dateMs now (map historyItem normalizedHistory)
      in \<lparr>currentStreak = currentStreak s,
          longestStreak = max (longestStreak s) (longestStreak currentStats),
          totalScore = totalScore currentStats + points,
          totalVotes = totalVotes currentStats + 1,
          cooperateCount = cooperateCount currentStats + (if choice newVote = Cooperate then 1 else 0),
          defectCount = defectCount currentStats + (if choice newVote = Defect then 1 else 0),
          history = normalizedHistory\<rparr>)"

text \<open>
  An older copy of the same function (src/unnamed/part_005) keeps every entry and reads a
  string entry as a day with the choice \<^verbatim>\<open>'cooperate'\<close>; its streaks come from
  \<open>calculateStreak\<close> over these items. Only its treatment of the entries is modelled.
\<close>

definition legacyHistoryItems :: "string list \<Rightarrow> HistoryItem \<Rightarrow> HistoryItem list" where
  "legacyHistoryItems storedHistory newVote =
     map (\<lambda>h. \<lparr>day = h, choice = Cooperate\<rparr>) storedHistory
       @ [\<lparr>day = day newVote, choice = choice newVote\<rparr>]"

subsection \<open>A date parser to run the model\<close>

text \<open>
  \<open>dateMs\<close> is a parameter of the model. \<open>isoDateMs\<close> is one instance, used in the
  examples: the date-only form \<^verbatim>\<open>YYYY-MM-DD\<close> that \<^verbatim>\<open>getCurrentDay\<close> writes, read
  as midnight UTC of a calendar date, and invalid for a text of another form. It also
  reads a day number beyond the end of the month as invalid, where some engines roll over
  into the next month; the examples use no such text.
\<close>

definition digitVal :: "char \<Rightarrow> int" where
  "digitVal c = int (of_char c) - 48"

definition isLeapYear :: "int \<Rightarrow> bool" where
  "isLeapYear y = ((y mod 4 = 0 \<and> y mod 100 \<noteq> 0) \<or> y mod 400 = 0)"

definition daysInMonth :: "int \<Rightarrow> int \<Rightarrow> int" where
  "daysInMonth y m =
     (if m = 2 then (if isLeapYear y then 29 else 28)
      else if m = 4 \<or> m = 6 \<or> m = 9 \<or> m = 11 then 30 else 31)"

definition daysFromCivil :: "int \<Rightarrow> int \<Rightarrow> int \<Rightarrow> int" where
  "daysFromCivil y m d =
     (let y1 = (if m \<le> 2 then y - 1 else y);
          era = y1 div 400;
          yoe = y1 - era * 400;
          doy = (153 * (if m > 2 then m - 3 else m + 9) + 2) div 5 + d - 1;
          doe = yoe * 365 + yoe div 4 - yoe div 100 + doy
      in era * 146097 + doe - 719468)"

definition isoDateMs :: "string \<Rightarrow> int option" where
  "isoDateMs s =
     (case s of
        [y1, y2, y3, y4, s1, m1, m2, s2, d1, d2] \<Rightarrow>
          if isDayString s then
            (let y = 1000 * digitVal y1 + 100 * digitVal y2 + 10 * digitVal y3 + digitVal y4;
                 m = 10 * digitVal m1 + digitVal m2;
                 d = 10 * digitVal d1 + digitVal d2
             in if 1 \<le> m \<and> m \<le> 12 \<and> 1 \<le> d \<and> d \<le> daysInMonth y m
                then Some (daysFromCivil y m d * MS_PER_DAY) else None)
          else None
      | _ \<Rightarrow> None)"


subsection \<open>The longest streak in the words of the spec\<close>

text \<open>
  The spec scans the history sorted by day and tracks runs of calendar-consecutive days:
  a gap of exactly one day between entries continues the run, anything else breaks it,
  and the longest run counts, the final one included. \<open>spec_runLengths\<close> gives the
  lengths of these runs for a list of day numbers in the scan's order (latest first), and
  \<open>spec_longestStreak\<close> their maximum. \<open>dayIndex\<close> is the day number of an entry and
  \<open>laterOrSame\<close> the order of the scan.
\<close>

fun spec_runLengths :: "int list \<Rightarrow> int list" where
  "spec_runLengths [] = []"
| "spec_runLengths [d] = [1]"
| "spec_runLengths (d # e # ds) =
     (if d - e = 1 then
        (case spec_runLengths (e # ds) of
           n # ns \<Rightarrow> (n + 1) # ns
         | [] \<Rightarrow> [1])
      else 1 # spec_runLengths (e # ds))"

definition spec_longestStreak :: "int list \<Rightarrow> int" where
  "spec_longestStreak days = foldr max (spec_runLengths days) 0"

definition dayIndex :: "(string \<Rightarrow> int option) \<Rightarrow> HistoryItem \<Rightarrow> int" where
  "dayIndex dateMs h = (case dateMs (day h) of Some t \<Rightarrow> t div MS_PER_DAY | None \<Rightarrow> 0)"

definition laterOrSame :: "(string \<Rightarrow> int option) \<Rightarrow> HistoryItem \<Rightarrow> HistoryItem \<Rightarrow> bool" where
  "laterOrSame dateMs a b =
     (case (dateMs (day a), dateMs (day b)) of
        (Some ta, Some tb) \<Rightarrow> tb \<le> ta
      | _ \<Rightarrow> False)"

section \<open>The key-value store (the Devvit Redis client)\<close>

text \<open>
  Redis holds strings. A stored string is represented by how it was produced:
  \<open>Text s\<close> is the string \<open>s\<close> itself (a lock token, the marker \<^verbatim>\<open>'true'\<close>),
  \<open>Num r\<close> the decimal text of the number \<open>r\<close> (a counter, a score), and \<open>Json j\<close>
  the text \<^verbatim>\<open>JSON.stringify(j)\<close> of an object or an array. \<open>Text\<close> is not used for
  a string that is a number or the JSON text of an object or array.
\<close>

datatype sval = Text string | Num rat | Json json

record db =
  vals :: "string \<Rightarrow> sval option"
  version :: "string \<Rightarrow> nat"

text \<open>
  \<open>version k\<close> counts the writes to key \<open>k\<close>: it is what \<^verbatim>\<open>WATCH\<close> observes.
\<close>

definition db_write :: "string \<Rightarrow> sval option \<Rightarrow> db \<Rightarrow> db" where
  "db_write k v d = d\<lparr>vals := (vals d)(k := v), version := (version d)(k := Suc (version d k))\<rparr>"

datatype cmd = CIncrBy string int | CSet string sval

datatype op =
    Get string
  | Set string sval
  | SetNX string sval "int option"
  | Del string
  | IncrBy string int
  | MSet "(string \<times> sval) list"
  | Watch "string list"
  | Multi
  | Queue cmd
  | Exec bool

text \<open>
  One invocation runs against a store that other invocations share. Every store call is
  awaited, and the others may run in the meantime: \<open>sched\<close> lists what they do to the
  store before each of this invocation's calls, in order (nothing once it is empty).
  \<open>trace\<close> records this invocation's own calls.
\<close>

record world =
  store :: db
  sched :: "(db \<Rightarrow> db) list"
  trace :: "op list"

datatype error = TypeError string | ReplyError string

type_synonym 'a io = "world \<Rightarrow> (error + 'a) \<times> world"

definition ret :: "'a \<Rightarrow> 'a io" where
  "ret x w = (Inr x, w)"

definition throw :: "error \<Rightarrow> 'a io" where
  "throw e w = (Inl e, w)"

definition andThen :: "'a io \<Rightarrow> ('a \<Rightarrow> 'b io) \<Rightarrow> 'b io" where
  "andThen m f w = (case m w of (Inl e, w') \<Rightarrow> (Inl e, w') | (Inr x, w') \<Rightarrow> f x w')"

text \<open>\<^verbatim>\<open>try { body } catch (error) { handler }\<close> and \<^verbatim>\<open>try { body } finally { cleanup }\<close>.\<close>

definition tryCatch :: "'a io \<Rightarrow> (error \<Rightarrow> 'a io) \<Rightarrow> 'a io" where
  "tryCatch body handler w =
     (case body w of (Inl e, w') \<Rightarrow> handler e w' | (Inr x, w') \<Rightarrow> (Inr x, w'))"

definition tryFinally :: "'a io \<Rightarrow> unit io \<Rightarrow> 'a io" where
  "tryFinally body cleanup w =
     (case body w of
        (r, w') \<Rightarrow>
          (case cleanup w' of
             (Inl e, w'') \<Rightarrow> (Inl e, w'')
           | (Inr _, w'') \<Rightarrow> (r, w'')))"

definition yield :: "world \<Rightarrow> world" where
  "yield w = (case sched w of [] \<Rightarrow> w | e # es \<Rightarrow> w\<lparr>store := e (store w), sched := es\<rparr>)"

definition logged :: "op \<Rightarrow> world \<Rightarrow> world" where
  "logged c w = w\<lparr>trace := trace w @ [c]\<rparr>"

definition redis_get :: "string \<Rightarrow> sval option io" where
  "redis_get k w = (let w1 = yield w in (Inr (vals (store w1) k), logged (Get k) w1))"

definition redis_set :: "string \<Rightarrow> sval \<Rightarrow> unit io" where
  "redis_set k v w =
     (let w1 = yield w in (Inr (), logged (Set k v) (w1\<lparr>store := db_write k (Some v) (store w1)\<rparr>)))"

text \<open>
  \<^verbatim>\<open>set(key, value, {nx: true, expiration})\<close>: created only when the key is absent; the
  result is truthy on success. The store has no clock: an expiry is a step of the
  environment that deletes the key.
\<close>

definition redis_setNX :: "string \<Rightarrow> sval \<Rightarrow> int option \<Rightarrow> bool io" where
  "redis_setNX k v expiration w =
     (let w1 = yield w in
      if vals (store w1) k = None
      then (Inr True, logged (SetNX k v expiration) (w1\<lparr>store := db_write k (Some v) (store w1)\<rparr>))
      else (Inr False, logged (SetNX k v expiration) w1))"

definition redis_del :: "string \<Rightarrow> unit io" where
  "redis_del k w =
     (let w1 = yield w in (Inr (), logged (Del k) (w1\<lparr>store := db_write k None (store w1)\<rparr>)))"

definition isInteger :: "rat \<Rightarrow> bool" where
  "isInteger r = (r = of_int \<lfloor>r\<rfloor>)"

text \<open>
  \<^verbatim>\<open>INCRBY\<close> on a stored value: an absent key counts as 0, a value that is not an
  integer is an error and is left as it is.
\<close>

definition incremented :: "sval option \<Rightarrow> int \<Rightarrow> rat option" where
  "incremented v n =
     (case v of
        None \<Rightarrow> Some (of_int n)
      | Some (Num r) \<Rightarrow> if isInteger r then Some (r + of_int n) else None
      | Some _ \<Rightarrow> None)"

definition redis_incrBy :: "string \<Rightarrow> int \<Rightarrow> rat io" where
  "redis_incrBy k n w =
     (let w1 = yield w in
      case incremented (vals (store w1) k) n of
        Some r \<Rightarrow> (Inr r, logged (IncrBy k n) (w1\<lparr>store := db_write k (Some (Num r)) (store w1)\<rparr>))
      | None \<Rightarrow> (Inl (ReplyError ''value is not an integer''), logged (IncrBy k n) w1))"

definition redis_mSet :: "(string \<times> sval) list \<Rightarrow> unit io" where
  "redis_mSet kvs w =
     (let w1 = yield w in
      (Inr (), logged (MSet kvs) (w1\<lparr>store := fold (\<lambda>(k, v). db_write k (Some v)) kvs (store w1)\<rparr>)))"

subsection \<open>Transactions: WATCH, MULTI, queued commands, EXEC\<close>

record tx =
  watched :: "(string \<times> nat) list"
  queue :: "cmd list"

definition redis_watch :: "string list \<Rightarrow> tx io" where
  "redis_watch ks w =
     (let w1 = yield w in
      (Inr \<lparr>watched = map (\<lambda>k. (k, version (store w1) k)) ks, queue = []\<rparr>, logged (Watch ks) w1))"

definition tx_multi :: "tx \<Rightarrow> unit io" where
  "tx_multi t w = (Inr (), logged Multi (yield w))"

definition tx_queue :: "tx \<Rightarrow> cmd \<Rightarrow> tx io" where
  "tx_queue t c w = (Inr (t\<lparr>queue := queue t @ [c]\<rparr>), logged (Queue c) (yield w))"

text \<open>
  A queued command runs at \<^verbatim>\<open>EXEC\<close>; one that fails then (an increment of a value that
  is not an integer) is skipped and the others still run, as in Redis.
\<close>

fun runCmd :: "cmd \<Rightarrow> db \<Rightarrow> db" where
  "runCmd (CSet k v) d = db_write k (Some v) d"
| "runCmd (CIncrBy k n) d =
     (case incremented (vals d k) n of
        Some r \<Rightarrow> db_write k (Some (Num r)) d
      | None \<Rightarrow> d)"

definition unchanged :: "db \<Rightarrow> (string \<times> nat) \<Rightarrow> bool" where
  "unchanged d kv = (version d (fst kv) = snd kv)"

text \<open>
  \<^verbatim>\<open>EXEC\<close> runs the queue atomically if no watched key was written since \<^verbatim>\<open>WATCH\<close>,
  and discards it otherwise. The result says which.
\<close>

definition tx_exec :: "tx \<Rightarrow> bool io" where
  "tx_exec t w =
     (let w1 = yield w in
      if list_all (unchanged (store w1)) (watched t)
      then (Inr True, logged (Exec True) (w1\<lparr>store := fold runCmd (queue t) (store w1)\<rparr>))
      else (Inr False, logged (Exec False) w1))"

section \<open>Redis keys (src/utils/constants.ts)\<close>

text \<open>
  \<^verbatim>\<open>REDIS_KEYS\<close> is an object of key generators. A table lists its members by name;
  \<open>arg\<close> reads a positional argument, and a missing one prints as \<^verbatim>\<open>undefined\<close> in a
  template string.
\<close>

type_synonym keytable = "(string \<times> (string list \<Rightarrow> string)) list"

definition arg :: "string list \<Rightarrow> nat \<Rightarrow> string" where
  "arg args i = (if i < length args then args ! i else ''undefined'')"

definition userVote :: "string list \<Rightarrow> string" where
  "userVote a = ''post:'' @ arg a 0 @ '':user:'' @ arg a 1 @ '':day:'' @ arg a 2 @ '':vote''"

definition dailyCooperateCount :: "string list \<Rightarrow> string" where
  "dailyCooperateCount a = ''post:'' @ arg a 0 @ '':day:'' @ arg a 1 @ '':cooperate''"

definition dailyDefectCount :: "string list \<Rightarrow> string" where
  "dailyDefectCount a = ''post:'' @ arg a 0 @ '':day:'' @ arg a 1 @ '':defect''"

definition dailyResults :: "string list \<Rightarrow> string" where
  "dailyResults a = ''post:'' @ arg a 0 @ '':day:'' @ arg a 1 @ '':results''"

definition dailyFinalized :: "string list \<Rightarrow> string" where
  "dailyFinalized a = ''post:'' @ arg a 0 @ '':day:'' @ arg a 1 @ '':finalized''"

definition userStats :: "string list \<Rightarrow> string" where
  "userStats a = ''post:'' @ arg a 0 @ '':user:'' @ arg a 1 @ '':stats''"

definition userHistory :: "string list \<Rightarrow> string" where
  "userHistory a = ''post:'' @ arg a 0 @ '':user:'' @ arg a 1 @ '':history''"

definition REDIS_KEYS :: keytable where
  "REDIS_KEYS =
     [(''userVote'', userVote),
      (''dailyCooperateCount'', dailyCooperateCount),
      (''dailyDefectCount'', dailyDefectCount),
      (''dailyResults'', dailyResults),
      (''dailyFinalized'', dailyFinalized),
      (''userStats'', userStats),
      (''userHistory'', userHistory)]"

text \<open>
  These seven are all the members of the object. The main module also calls
  \<^verbatim>\<open>REDIS_KEYS.dailyFinalizeLock\<close>, \<^verbatim>\<open>REDIS_KEYS.userAwardLock\<close> and
  \<^verbatim>\<open>REDIS_KEYS.userScore\<close>, which no module defines.
\<close>

text \<open>
  The call \<^verbatim>\<open>REDIS_KEYS.member(args)\<close>: a member the object lacks is \<^verbatim>\<open>undefined\<close>,
  and calling it throws a TypeError.
\<close>

definition callKey :: "keytable \<Rightarrow> string \<Rightarrow> string list \<Rightarrow> string io" where
  "callKey keys member args =
     (case map_of keys member of
        None \<Rightarrow> throw (TypeError (''REDIS_KEYS.'' @ member @ '' is not a function''))
      | Some generate \<Rightarrow> ret (generate args))"

section \<open>The main module (src/unnamed/part_004)\<close>

text \<open>Truthiness of what \<^verbatim>\<open>redis.get\<close> returns: a string that is not empty.\<close>

fun nonEmpty :: "sval option \<Rightarrow> bool" where
  "nonEmpty None = False"
| "nonEmpty (Some (Text s)) = (s \<noteq> [])"
| "nonEmpty (Some (Num r)) = True"
| "nonEmpty (Some (Json j)) = True"

text \<open>\<^verbatim>\<open>JSON.parse\<close> of a stored string; \<open>None\<close> is a SyntaxError.\<close>

fun parseStored :: "sval \<Rightarrow> json option" where
  "parseStored (Json j) = Some j"
| "parseStored (Num r) = Some (JNum r)"
| "parseStored (Text s) =
     (if s = ''true'' then Some (JBool True)
      else if s = ''false'' then Some (JBool False)
      else if s = ''null'' then Some JNull
      else None)"

text \<open>
  \<^verbatim>\<open>safeJSONParse(data)\<close> and \<^verbatim>\<open>safeJSONParse(data, fallback)\<close>; JavaScript's
  \<^verbatim>\<open>null\<close> is \<open>JNull\<close>.
\<close>

definition safeJSONParseOr :: "sval option \<Rightarrow> json \<Rightarrow> json" where
  "safeJSONParseOr data fallback =
     (if \<not> nonEmpty data then fallback
      else case data of
             None \<Rightarrow> fallback
           | Some v \<Rightarrow> (case parseStored v of Some j \<Rightarrow> j | None \<Rightarrow> fallback))"

definition safeJSONParse :: "sval option \<Rightarrow> json" where
  "safeJSONParse data = safeJSONParseOr data JNull"

text \<open>Truthiness of a property that may be missing, as in \<^verbatim>\<open>vote?.choice\<close>.\<close>

definition truthyField :: "json \<Rightarrow> string \<Rightarrow> bool" where
  "truthyField j k = (case field j k of None \<Rightarrow> False | Some v \<Rightarrow> truthy v)"

text \<open>Assignment to a property of an object.\<close>

fun setField :: "json \<Rightarrow> string \<Rightarrow> json \<Rightarrow> json" where
  "setField (JObj fs) k v = JObj (AList.update k v fs)"
| "setField j k v = j"

text \<open>
  \<^verbatim>\<open>parseInt(text, 10)\<close> on a stored string; \<open>None\<close> is NaN. The text of a number
  parses to its integer part. The result is the whole number the digits denote; the
  caller rounds it to a double where it computes with it.
\<close>

fun digitsValue :: "string \<Rightarrow> int \<Rightarrow> int" where
  "digitsValue [] acc = acc"
| "digitsValue (c # cs) acc = (if isDigit c then digitsValue cs (10 * acc + digitVal c) else acc)"

definition isSpace :: "char \<Rightarrow> bool" where
  "isSpace c = (c \<in> set [CHR '' '', CHR 0x09, CHR 0x0A, CHR 0x0B, CHR 0x0C, CHR 0x0D])"

definition parseIntText :: "string \<Rightarrow> int option" where
  "parseIntText s =
     (let t = dropWhile isSpace s;
          negative = (t \<noteq> [] \<and> hd t = CHR ''-'');
          u = (if t \<noteq> [] \<and> (hd t = CHR ''-'' \<or> hd t = CHR ''+'') then tl t else t)
      in if u \<noteq> [] \<and> isDigit (hd u)
         then Some (if negative then - digitsValue u 0 else digitsValue u 0)
         else None)"

fun parseInt :: "sval \<Rightarrow> int option" where
  "parseInt (Text s) = parseIntText s"
| "parseInt (Num r) = Some (if 0 \<le> r then \<lfloor>r\<rfloor> else \<lceil>r\<rceil>)"
| "parseInt (Json j) = None"

text \<open>\<^verbatim>\<open>parseInt(data || '0', 10)\<close>.\<close>

definition parseIntOrZero :: "sval option \<Rightarrow> int option" where
  "parseIntOrZero data = (if nonEmpty data then (case data of Some v \<Rightarrow> parseInt v | None \<Rightarrow> Some 0) else Some 0)"

subsection \<open>releaseLock\<close>

text \<open>
  The lock token comes from \<^verbatim>\<open>createLockId()\<close> (clock and random digits); it is a
  parameter of the functions that take a lock. \<open>logError\<close> stands for the
  \<^verbatim>\<open>console.error\<close> of a catch block: the error is dropped.
\<close>

definition logError :: "error \<Rightarrow> unit io" where
  "logError e = ret ()"

definition releaseLock :: "string \<Rightarrow> string \<Rightarrow> unit io" where
  "releaseLock lockKey lockId =
     tryCatch
       (andThen (redis_get lockKey) (\<lambda>currentLockId.
          if currentLockId = Some (Text lockId) then redis_del lockKey else ret ()))
       logError"

subsection \<open>finalizeDailyResults\<close>

fun outcomeText :: "Outcome \<Rightarrow> string" where
  "outcomeText AllCooperate = ''all-cooperate''"
| "outcomeText AllDefect = ''all-defect''"
| "outcomeText Mixed = ''mixed''"

text \<open>
  The \<^verbatim>\<open>DailyResults\<close> object that is stored. The counts are doubles that are not
  both zero; the total and the percentages are computed as written, each operation
  rounded. A number in the stored text is represented by the double it denotes.
\<close>

definition dailyResultsJson :: "string \<Rightarrow> rat \<Rightarrow> rat \<Rightarrow> json" where
  "dailyResultsJson dayId cooperateVotes defectVotes =
     (let r = calculateResults cooperateVotes defectVotes in
      JObj [(''day'', JStr dayId),
            (''totalVotes'', JNum (rnd (cooperateVotes + defectVotes))),
            (''cooperateCount'', JNum cooperateVotes),
            (''defectCount'', JNum defectVotes),
            (''cooperatePercent'',
               JNum (rnd (rnd (cooperateVotes / rnd (cooperateVotes + defectVotes)) * 100))),
            (''defectPercent'',
               JNum (rnd (rnd (defectVotes / rnd (cooperateVotes + defectVotes)) * 100))),
            (''outcome'', JStr (outcomeText (outcome r))),
            (''pointsForCooperators'', JNum (of_int (pointsForCooperators r))),
            (''pointsForDefectors'', JNum (of_int (pointsForDefectors r)))])"

text \<open>
  \<open>keys\<close> is \<^verbatim>\<open>REDIS_KEYS\<close>, \<open>lockId\<close> the token \<^verbatim>\<open>createLockId()\<close> returns,
  \<open>now\<close> the clock and \<open>dayId\<close> the source's \<^verbatim>\<open>day\<close>. The two reads of a
  \<^verbatim>\<open>Promise.all\<close> are issued in the order written.

  \<open>finalizeLocked\<close> is the body of the inner \<^verbatim>\<open>try\<close>, which runs with the lock held.
\<close>

definition finalizeLocked :: "keytable \<Rightarrow> string \<Rightarrow> string \<Rightarrow> unit io" where
  "finalizeLocked keys postId dayId =
     andThen (callKey keys ''dailyFinalized'' [postId, dayId]) (\<lambda>finalizedKey.
     andThen (callKey keys ''dailyResults'' [postId, dayId]) (\<lambda>resultsKey.
     andThen (redis_get finalizedKey) (\<lambda>alreadyFinalized.
     andThen (redis_get resultsKey) (\<lambda>existingResultsData.
       if nonEmpty existingResultsData then
         (if \<not> nonEmpty alreadyFinalized
          then redis_set finalizedKey (Text ''true'')
          else ret ())
       else
         andThen (callKey keys ''dailyCooperateCount'' [postId, dayId]) (\<lambda>cooperateKey.
         andThen (callKey keys ''dailyDefectCount'' [postId, dayId]) (\<lambda>defectKey.
         andThen (redis_get cooperateKey) (\<lambda>cooperateCountStr.
         andThen (redis_get defectKey) (\<lambda>defectCountStr.
           case (parseIntOrZero cooperateCountStr, parseIntOrZero defectCountStr) of
             (Some cooperateVotes, Some defectVotes) \<Rightarrow>
               if cooperateVotes = 0 \<and> defectVotes = 0 then ret ()
               else redis_mSet
                      [(resultsKey,
                        Json (dailyResultsJson dayId (rnd (of_int cooperateVotes))
                                (rnd (of_int defectVotes)))),
                       (finalizedKey, Text ''true'')]
           | _ \<Rightarrow> ret ()))))))))"

definition finalizeDailyResults :: "keytable \<Rightarrow> string \<Rightarrow> int \<Rightarrow> string \<Rightarrow> string \<Rightarrow> unit io" where
  "finalizeDailyResults keys lockId now postId dayId =
     tryCatch
       (andThen (callKey keys ''dailyFinalizeLock'' [postId, dayId]) (\<lambda>lockKey.
        andThen (redis_setNX lockKey (Text lockId) (Some (now + 30000))) (\<lambda>lockAcquired.
          if \<not> lockAcquired then ret ()
          else tryFinally (finalizeLocked keys postId dayId) (releaseLock lockKey lockId))))
       logError"

subsection \<open>awardUserPoints\<close>

text \<open>
  \<^verbatim>\<open>tx.incrBy(key, points)\<close>, with \<open>points\<close> a property read from the parsed results
  (\<open>None\<close> when missing). An increment that is not a whole number is not a valid
  command: the call throws.
\<close>

definition tx_incrBy :: "tx \<Rightarrow> string \<Rightarrow> json option \<Rightarrow> tx io" where
  "tx_incrBy t k points =
     (case points of
        Some (JNum r) \<Rightarrow>
          if isInteger r then tx_queue t (CIncrBy k \<lfloor>r\<rfloor>)
          else throw (TypeError ''increment is not an integer'')
      | _ \<Rightarrow> throw (TypeError ''increment is not an integer''))"

text \<open>
  The block under \<^verbatim>\<open>if (!existingScore)\<close>: a score key that does not exist yet is
  created from the total in the stored stats, if there is one.
\<close>

definition seedScore :: "keytable \<Rightarrow> string \<Rightarrow> string \<Rightarrow> string \<Rightarrow> unit io" where
  "seedScore keys postId userId scoreKey =
     andThen (callKey keys ''userStats'' [postId, userId]) (\<lambda>statsKey.
     andThen (redis_get statsKey) (\<lambda>statsData.
       let stats = safeJSONParse statsData in
       case (if truthy stats then field stats ''totalScore'' else None) of
         Some (JNum savedTotal) \<Rightarrow> andThen (redis_setNX scoreKey (Num savedTotal) None) (\<lambda>_. ret ())
       | _ \<Rightarrow> ret ()))"

text \<open>
  The last step: the increment and the marked vote are queued in one transaction that
  watches the two keys.
\<close>

definition applyAward :: "string \<Rightarrow> string \<Rightarrow> json option \<Rightarrow> json \<Rightarrow> unit io" where
  "applyAward voteKey scoreKey points awarded =
     andThen (redis_watch [voteKey, scoreKey]) (\<lambda>t0.
     andThen (tx_multi t0) (\<lambda>_.
     andThen (tx_incrBy t0 scoreKey points) (\<lambda>t1.
     andThen (tx_queue t1 (CSet voteKey (Json awarded))) (\<lambda>t2.
     andThen (tx_exec t2) (\<lambda>_. ret ())))))"

text \<open>The body of the inner \<^verbatim>\<open>try\<close>, which runs with the award lock held.\<close>

definition awardLocked :: "int \<Rightarrow> string \<Rightarrow> string \<Rightarrow> json option \<Rightarrow> unit io" where
  "awardLocked now voteKey scoreKey points =
     andThen (redis_get voteKey) (\<lambda>freshVoteData.
       let freshVote = safeJSONParse freshVoteData in
       if \<not> truthyField freshVote ''choice'' then ret ()
       else if truthyField freshVote ''pointsAwarded'' then ret ()
       else
         applyAward voteKey scoreKey points
           (setField (setField freshVote ''pointsAwarded'' (JBool True))
              ''pointsAwardedAt'' (JNum (of_int now))))"

text \<open>
  \<open>finalizeLockId\<close> and \<open>awardLockId\<close> are the tokens of the two calls of
  \<^verbatim>\<open>createLockId()\<close> that can happen during one invocation.
\<close>

definition awardUserPoints ::
  "keytable \<Rightarrow> string \<Rightarrow> string \<Rightarrow> int \<Rightarrow> string \<Rightarrow> string \<Rightarrow> string \<Rightarrow> unit io" where
  "awardUserPoints keys finalizeLockId awardLockId now postId userId dayId =
     tryCatch
       (andThen (callKey keys ''userVote'' [postId, userId, dayId]) (\<lambda>voteKey.
        andThen (redis_get voteKey) (\<lambda>voteData.
          if \<not> nonEmpty voteData then ret ()
          else
            let vote = safeJSONParse voteData in
            if \<not> truthyField vote ''choice'' then ret ()
            else if truthyField vote ''pointsAwarded'' then ret ()
            else
              andThen (callKey keys ''dailyResults'' [postId, dayId]) (\<lambda>resultsKey.
              andThen (redis_get resultsKey) (\<lambda>firstResultsData.
              andThen (if \<not> nonEmpty firstResultsData
                       then andThen (finalizeDailyResults keys finalizeLockId now postId dayId)
                              (\<lambda>_. redis_get resultsKey)
                       else ret firstResultsData) (\<lambda>resultsData.
                if \<not> nonEmpty resultsData then ret ()
                else
                  let results = safeJSONParse resultsData in
                  if \<not> truthy results then ret ()
                  else
                    let points = (if field vote ''choice'' = Some (JStr ''cooperate'')
                                  then field results ''pointsForCooperators''
                                  else field results ''pointsForDefectors'')
                    in
                    andThen (callKey keys ''userScore'' [postId, userId]) (\<lambda>scoreKey.
                    andThen (redis_get scoreKey) (\<lambda>existingScore.
                    andThen (if \<not> nonEmpty existingScore
                             then seedScore keys postId userId scoreKey
                             else ret ()) (\<lambda>_.
                    andThen (callKey keys ''userAwardLock'' [postId, userId, dayId]) (\<lambda>lockKey.
                    andThen (redis_setNX lockKey (Text awardLockId) (Some (now + 30000))) (\<lambda>lockAcquired.
                      if \<not> lockAcquired then ret ()
                      else tryFinally (awardLocked now voteKey scoreKey points)
                                      (releaseLock lockKey awardLockId))))))))))))
       logError"

subsection \<open>handleVote\<close>

text \<open>
  What the user sees: nothing (the early return), the toast \<^verbatim>\<open>You already voted today\<close>,
  the toast of a submitted vote, or the toast of a failure (the catch block).
  \<open>Untyped\<close> is not an answer of the program: it marks a run that found stored
  statistics whose counters do not have the declared type, at the point where the model
  ends (see \<open>typedStats\<close>).
\<close>

datatype voteOutcome = Ignored | AlreadyVoted | Submitted | Failed | Untyped

text \<open>The fallback object of \<^verbatim>\<open>safeJSONParse<UserStats>\<close> and the stored form of the stats.\<close>

definition defaultStatsJson :: "rat \<Rightarrow> json" where
  "defaultStatsJson score =
     JObj [(''totalScore'', JNum score), (''currentStreak'', JNum 0), (''longestStreak'', JNum 0),
           (''totalVotes'', JNum 0), (''cooperateCount'', JNum 0), (''defectCount'', JNum 0),
           (''history'', JArr [])]"

definition statsJson :: "UserStats \<Rightarrow> json" where
  "statsJson s =
     JObj [(''totalScore'', JNum (of_int (totalScore s))),
           (''currentStreak'', JNum (of_int (currentStreak s))),
           (''longestStreak'', JNum (of_int (longestStreak s))),
           (''totalVotes'', JNum (of_int (totalVotes s))),
           (''cooperateCount'', JNum (of_int (cooperateCount s))),
           (''defectCount'', JNum (of_int (defectCount s))),
           (''history'', JArr (history s))]"

text \<open>
  \<open>updateUserStats\<close> is typed: it adds whole numbers and spreads an iterable history.
  \<open>spreadHistory\<close> is the spread \<^verbatim>\<open>[...currentStats.history]\<close> of a parsed value: a
  missing property, or one that is not iterable, makes the source throw a TypeError.
  \<open>typedStats\<close> reads the fields of a parsed object that has the declared type
  \<^verbatim>\<open>UserStats\<close>, every counter a whole number of magnitude below \<open>2\<^sup>5\<^sup>3\<close>. On any
  other object JavaScript goes on, with NaN or with concatenated strings, and reports a
  submitted vote; what it writes then is not modelled.
\<close>

definition intField :: "json \<Rightarrow> string \<Rightarrow> int option" where
  "intField j k =
     (case field j k of
        Some (JNum r) \<Rightarrow> if isInteger r \<and> \<bar>r\<bar> < 2 ^ 53 then Some \<lfloor>r\<rfloor> else None
      | _ \<Rightarrow> None)"

definition spreadHistory :: "json \<Rightarrow> json list option" where
  "spreadHistory j =
     (case field j ''history'' of
        Some (JArr entries) \<Rightarrow> Some entries
      | Some (JStr s) \<Rightarrow> Some (map (\<lambda>c. JStr [c]) s)
      | _ \<Rightarrow> None)"

definition typedStats :: "json \<Rightarrow> UserStats option" where
  "typedStats j =
     (case (intField j ''totalScore'', intField j ''longestStreak'', intField j ''totalVotes'',
            intField j ''cooperateCount'', intField j ''defectCount'', spreadHistory j) of
        (Some score, Some longest, Some votes, Some cooperates, Some defects, Some entries) \<Rightarrow>
          Some \<lparr>currentStreak = 0, longestStreak = longest, totalScore = score, totalVotes = votes,
                cooperateCount = cooperates, defectCount = defects, history = entries\<rparr>
      | _ \<Rightarrow> None)"

text \<open>
  The running total: the score key if it holds one, otherwise the total of the stored
  stats, which then seeds the score key when it is positive.
\<close>

definition currentTotal :: "string \<Rightarrow> sval option \<Rightarrow> sval option \<Rightarrow> rat io" where
  "currentTotal scoreKey scoreData currentStatsData =
     (let fromScore =
            (if nonEmpty scoreData
             then (case parseIntOrZero scoreData of Some n \<Rightarrow> rnd (of_int n) | None \<Rightarrow> 0)
             else 0)
      in if \<not> nonEmpty scoreData \<and> nonEmpty currentStatsData then
           (let existingStats = safeJSONParse currentStatsData in
            case (if truthy existingStats then field existingStats ''totalScore'' else None) of
              Some (JNum savedTotal) \<Rightarrow>
                if savedTotal > 0
                then andThen (redis_setNX scoreKey (Num savedTotal) None) (\<lambda>_. ret savedTotal)
                else ret savedTotal
            | _ \<Rightarrow> ret fromScore)
         else ret fromScore)"

text \<open>
  What follows a vote that was created: the counter, the history, the stats.
  \<open>jsonParse\<close> and \<open>dateMs\<close> are the runtime functions \<open>updateUserStats\<close> uses.
\<close>

definition recordVote ::
  "keytable \<Rightarrow> (string \<Rightarrow> json option) \<Rightarrow> (string \<Rightarrow> int option) \<Rightarrow> int \<Rightarrow>
   string \<Rightarrow> string \<Rightarrow> string \<Rightarrow> Choice \<Rightarrow> voteOutcome io" where
  "recordVote keys jsonParse dateMs now postId userId currentDay chosen =
     andThen (if chosen = Cooperate
              then andThen (callKey keys ''dailyCooperateCount'' [postId, currentDay])
                     (\<lambda>cooperateKey. redis_incrBy cooperateKey 1)
              else andThen (callKey keys ''dailyDefectCount'' [postId, currentDay])
                     (\<lambda>defectKey. redis_incrBy defectKey 1)) (\<lambda>_.
     andThen (callKey keys ''userHistory'' [postId, userId]) (\<lambda>historyKey.
     andThen (redis_get historyKey) (\<lambda>historyData.
       case safeJSONParseOr historyData (JArr []) of
         JArr entries \<Rightarrow>
           let newHistoryEntry = \<lparr>day = currentDay, choice = chosen\<rparr> in
           andThen (redis_set historyKey (Json (JArr (entries @ [itemJson newHistoryEntry])))) (\<lambda>_.
           andThen (callKey keys ''userStats'' [postId, userId]) (\<lambda>statsKey.
           andThen (redis_get statsKey) (\<lambda>currentStatsData.
           andThen (callKey keys ''userScore'' [postId, userId]) (\<lambda>scoreKey.
           andThen (redis_get scoreKey) (\<lambda>scoreData.
           andThen (currentTotal scoreKey scoreData currentStatsData) (\<lambda>score.
             let parsedStats = setField (safeJSONParseOr currentStatsData (defaultStatsJson score))
                                 ''totalScore'' (JNum score)
             in
             case spreadHistory parsedStats of
               None \<Rightarrow> throw (TypeError ''currentStats.history is not iterable'')
             | Some _ \<Rightarrow>
                 (case typedStats parsedStats of
                    Some currentStats \<Rightarrow>
                      andThen (redis_set statsKey
                                 (Json (statsJson
                                    (updateUserStats jsonParse dateMs now currentStats newHistoryEntry 0))))
                        (\<lambda>_. ret Submitted)
                  | None \<Rightarrow> ret Untyped)))))))
       | _ \<Rightarrow> throw (TypeError ''history.push is not a function''))))"

text \<open>
  \<open>hasVotedToday\<close> is the component's state, \<open>chosen\<close> the source's \<^verbatim>\<open>choice\<close>.
\<close>

definition handleVote ::
  "keytable \<Rightarrow> (string \<Rightarrow> json option) \<Rightarrow> (string \<Rightarrow> int option) \<Rightarrow> int \<Rightarrow>
   string \<Rightarrow> string \<Rightarrow> string \<Rightarrow> bool \<Rightarrow> Choice \<Rightarrow> voteOutcome io" where
  "handleVote keys jsonParse dateMs now postId userId currentDay hasVotedToday chosen =
     (if chosen = NoChoice \<or> hasVotedToday \<or> \<not> isValidChoice (Some (choiceJson chosen))
      then ret Ignored
      else
        tryCatch
          (andThen (callKey keys ''userVote'' [postId, userId, currentDay]) (\<lambda>voteKey.
             let vote = JObj [(''choice'', choiceJson chosen), (''timestamp'', JNum (of_int now)),
                              (''day'', JStr currentDay)]
             in
             andThen (redis_setNX voteKey (Json vote) None) (\<lambda>setResult.
               if \<not> setResult
               then andThen (redis_get voteKey) (\<lambda>existingVoteData. ret AlreadyVoted)
               else recordVote keys jsonParse dateMs now postId userId currentDay chosen)))
          (\<lambda>e. ret Failed))"

text \<open>Store calls that only read.\<close>

fun isRead :: "op \<Rightarrow> bool" where
  "isRead (Get k) = True"
| "isRead _ = False"

section \<open>Example data\<close>

text \<open>
  A store with no interference pending, and the state of post \<^verbatim>\<open>p\<close> after the cycle
  of 2026-02-10 was settled with seven cooperate votes against three: user \<^verbatim>\<open>u\<close>
  voted cooperate, has a score of 10 and has not been awarded yet. The score sits under
  a key formed like the others; no generator for it exists in the source.
\<close>

definition world0 :: "(string \<Rightarrow> sval option) \<Rightarrow> world" where
  "world0 m = \<lparr>store = \<lparr>vals = m, version = (\<lambda>k. 0)\<rparr>, sched = [], trace = []\<rparr>"

definition settledVote :: json where
  "settledVote = JObj [(''choice'', JStr ''cooperate''), (''timestamp'', JNum 1770700000000),
                       (''day'', JStr ''2026-02-10'')]"

definition settledStore :: "string \<Rightarrow> sval option" where
  "settledStore =
     [''post:p:user:u:day:2026-02-10:vote'' \<mapsto> Json settledVote,
      ''post:p:day:2026-02-10:results'' \<mapsto> Json (dailyResultsJson ''2026-02-10'' 7 3),
      ''post:p:day:2026-02-10:finalized'' \<mapsto> Text ''true'',
      ''post:p:user:u:score'' \<mapsto> Num 10]"

text \<open>
  What can happen to a lock between two store calls of its first holder: the record
  expires, and a later holder creates its own.
\<close>

definition laterHolderAcquires :: "db \<Rightarrow> db" where
  "laterHolderAcquires d =
     db_write ''lock'' (Some (Text ''1770822351500-9c41'')) (db_write ''lock'' None d)"





section \<open>Proofs: outcome calculator\<close>

lemmas GAME_CONFIG_defs =
  COOPERATE_THRESHOLD_def DEFECT_THRESHOLD_def ALL_COOPERATE_POINTS_def
  ALL_DEFECT_POINTS_def MIXED_DEFECT_POINTS_def MIXED_COOPERATE_POINTS_def

subsection \<open>Rounding\<close>

text \<open>
  \<open>binade\<close> is the exponent it is meant to be, and rounding is monotone, leaves a whole
  number below \<open>2\<^sup>5\<^sup>3\<close> as it is, and stays within the binade of its argument.
\<close>

lemma roundHalfEven_of_int: "roundHalfEven (of_int n) = n"
  by (simp add: roundHalfEven_def)

lemma roundHalfEven_floor: "\<lfloor>z\<rfloor> \<le> roundHalfEven z" "roundHalfEven z \<le> \<lfloor>z\<rfloor> + 1"
  by (simp_all add: roundHalfEven_def Let_def)

lemma roundHalfEven_mono:
  assumes "x \<le> y"
  shows "roundHalfEven x \<le> roundHalfEven y"
proof (cases "\<lfloor>x\<rfloor> = \<lfloor>y\<rfloor>")
  case True
  then have "x - of_int \<lfloor>x\<rfloor> \<le> y - of_int \<lfloor>y\<rfloor>"
    using assms by simp
  then show ?thesis
    using True by (auto simp: roundHalfEven_def Let_def)
next
  case False
  then have "\<lfloor>x\<rfloor> + 1 \<le> \<lfloor>y\<rfloor>"
    using floor_mono [OF assms] by simp
  then show ?thesis
    using roundHalfEven_floor(1) [of y] roundHalfEven_floor(2) [of x] by linarith
qed

lemma bitlen_powi:
  assumes "0 < (n::int)"
  shows "(2::rat) powi (bitlen n - 1) \<le> of_int n" "(of_int n :: rat) < 2 powi bitlen n"
proof -
  have b: "2 ^ nat (bitlen n - 1) \<le> n" "n < 2 ^ nat (bitlen n)"
    using bitlen_bounds [OF assms] by simp_all
  have pos: "1 \<le> bitlen n"
    using assms by (simp add: bitlen_def floorlog_def)
  have "(of_int (2 ^ nat (bitlen n - 1)) :: rat) \<le> of_int n"
    using b(1) by (simp only: of_int_le_iff)
  then show "(2::rat) powi (bitlen n - 1) \<le> of_int n"
    using pos by (simp add: power_int_def)
  have "(of_int n :: rat) < of_int (2 ^ nat (bitlen n))"
    using b(2) by (simp only: of_int_less_iff)
  then show "(of_int n :: rat) < 2 powi bitlen n"
    using pos by (simp add: power_int_def)
qed

lemma binade_bounds:
  assumes "0 < x"
  shows "2 powi binade x \<le> x" "x < 2 powi (binade x + 1)"
proof -
  obtain p q where pq: "quotient_of x = (p, q)"
    by (cases "quotient_of x")
  have q: "0 < q" using pq by (rule quotient_of_denom_pos)
  have x: "x = of_int p / of_int q" using pq by (rule quotient_of_div)
  have p: "0 < p"
    using assms q unfolding x by (simp add: zero_less_divide_iff)
  define k where "k = bitlen p - bitlen q"
  have qr: "(0::rat) < of_int q" using q by simp
  have "x * of_int q = of_int p" using qr x by simp
  have up: "x < 2 powi (k + 1)"
  proof -
    have "of_int p < (2::rat) powi bitlen p" using bitlen_powi(2) [OF p] .
    also have "\<dots> = 2 powi (k + 1) * 2 powi (bitlen q - 1)"
      by (simp add: k_def flip: power_int_add)
    also have "\<dots> \<le> 2 powi (k + 1) * of_int q"
      using bitlen_powi(1) [OF q] by (simp add: mult_left_mono)
    finally show ?thesis
      using qr unfolding x by (simp add: pos_divide_less_eq)
  qed
  have lo: "2 powi (k - 1) < x"
  proof -
    have "(2::rat) powi (k - 1) * of_int q < 2 powi (k - 1) * 2 powi bitlen q"
      using bitlen_powi(2) [OF q] by (simp add: mult_strict_left_mono)
    also have "\<dots> = 2 powi (bitlen p - 1)"
      by (simp add: k_def flip: power_int_add)
    also have "\<dots> \<le> of_int p" using bitlen_powi(1) [OF p] .
    finally show ?thesis
      using qr unfolding x by (simp add: pos_less_divide_eq)
  qed
  have b: "binade x = (if 2 powi k \<le> x then k else k - 1)"
    by (simp add: binade_def pq k_def Let_def)
  show "2 powi binade x \<le> x"
    using lo by (simp add: b)
  show "x < 2 powi (binade x + 1)"
    using up by (simp add: b not_le)
qed

lemma powi2_mono: "a \<le> b \<Longrightarrow> (2::rat) powi a \<le> 2 powi b"
  by (rule power_int_increasing) simp_all

lemma powi2_less_imp: "(2::rat) powi a < 2 powi b \<Longrightarrow> a < b"
  using powi2_mono [of b a] by (cases "a < b") simp_all

lemma binade_unique:
  assumes "2 powi b \<le> x" "x < 2 powi (b + 1)"
  shows "binade x = b"
proof -
  have "0 < x" using assms(1) by (rule less_le_trans [rotated]) simp
  note bb = binade_bounds [OF this]
  have "2 powi b < (2::rat) powi (binade x + 1)" using assms(1) bb(2) by simp
  then have 1: "b < binade x + 1" by (rule powi2_less_imp)
  have "2 powi binade x < (2::rat) powi (b + 1)" using assms(2) bb(1) by simp
  then have 2: "binade x < b + 1" by (rule powi2_less_imp)
  from 1 2 show ?thesis by simp
qed

lemma binade_mono:
  assumes "0 < x" "x \<le> y"
  shows "binade x \<le> binade y"
proof -
  have y: "0 < y" using assms by simp
  have "2 powi binade x \<le> x" using binade_bounds(1) [OF assms(1)] .
  also have "x \<le> y" by fact
  also have "y < 2 powi (binade y + 1)" using binade_bounds(2) [OF y] .
  finally have "binade x < binade y + 1" by (rule powi2_less_imp)
  then show ?thesis by simp
qed

lemma powi2_shift: "(2::rat) ^ n * 2 powi (b - int n) = 2 powi b"
proof -
  have "(2::rat) powi b = 2 powi (int n + (b - int n))" by simp
  also have "\<dots> = 2 powi int n * 2 powi (b - int n)"
    by (rule power_int_add) simp
  finally show ?thesis by simp
qed

lemma rnd_pos:
  assumes "0 < x"
  shows "rnd x = of_int (roundHalfEven (x / 2 powi (binade x - 52))) * 2 powi (binade x - 52)"
  using assms by (simp add: rnd_def Let_def)

lemma mantissa_bounds:
  assumes "0 < x"
  shows "2 ^ 52 \<le> x / 2 powi (binade x - 52)" "x / 2 powi (binade x - 52) < 2 ^ 53"
proof -
  have e: "(0::rat) < 2 powi (binade x - 52)" by simp
  have a: "(2::rat) ^ 52 * 2 powi (binade x - 52) = 2 powi binade x"
    using powi2_shift [of 52 "binade x"] by simp
  show "2 ^ 52 \<le> x / 2 powi (binade x - 52)"
    using binade_bounds(1) [OF assms] e a by (simp add: pos_le_divide_eq)
  have b: "(2::rat) ^ 53 * 2 powi (binade x - 52) = 2 powi (binade x + 1)"
    using powi2_shift [of 53 "binade x + 1"] by simp
  show "x / 2 powi (binade x - 52) < 2 ^ 53"
    using binade_bounds(2) [OF assms] e b by (simp add: pos_divide_less_eq)
qed

lemma rnd_bounds:
  assumes "0 < x"
  shows "2 powi binade x \<le> rnd x" "rnd x \<le> 2 powi (binade x + 1)"
proof -
  let ?e = "binade x - 52"
  let ?m = "x / 2 powi ?e"
  have "roundHalfEven (of_int (2 ^ 52)) \<le> roundHalfEven ?m"
    using mantissa_bounds(1) [OF assms] by (intro roundHalfEven_mono) simp
  then have lo: "2 ^ 52 \<le> roundHalfEven ?m"
    by (simp only: roundHalfEven_of_int)
  have "roundHalfEven ?m \<le> roundHalfEven (of_int (2 ^ 53))"
    using mantissa_bounds(2) [OF assms] by (intro roundHalfEven_mono) simp
  then have hi: "roundHalfEven ?m \<le> 2 ^ 53"
    by (simp only: roundHalfEven_of_int)
  have "(2::rat) powi binade x = of_int (2 ^ 52) * 2 powi ?e"
    using powi2_shift [of 52 "binade x"] by simp
  also have "\<dots> \<le> of_int (roundHalfEven ?m) * 2 powi ?e"
    using lo by (intro mult_right_mono) (simp_all only: of_int_le_iff zero_le_power_int zero_le_numeral)
  finally show "2 powi binade x \<le> rnd x"
    by (simp only: rnd_pos [OF assms])
  have "of_int (roundHalfEven ?m) * 2 powi ?e \<le> (of_int (2 ^ 53) :: rat) * 2 powi ?e"
    using hi by (intro mult_right_mono) (simp_all only: of_int_le_iff zero_le_power_int zero_le_numeral)
  also have "\<dots> = 2 powi (binade x + 1)"
    using powi2_shift [of 53 "binade x + 1"] by simp
  finally show "rnd x \<le> 2 powi (binade x + 1)"
    by (simp only: rnd_pos [OF assms])
qed

lemma rnd_mono_pos:
  assumes "0 < x" "x \<le> y"
  shows "rnd x \<le> rnd y"
proof -
  have y: "0 < y" using assms by simp
  show ?thesis
  proof (cases "binade x = binade y")
    case True
    have "x / 2 powi (binade y - 52) \<le> y / 2 powi (binade y - 52)"
      using assms(2) by (simp add: divide_right_mono)
    then have "roundHalfEven (x / 2 powi (binade y - 52)) \<le> roundHalfEven (y / 2 powi (binade y - 52))"
      by (rule roundHalfEven_mono)
    then have "(of_int (roundHalfEven (x / 2 powi (binade y - 52))) :: rat) * 2 powi (binade y - 52)
               \<le> of_int (roundHalfEven (y / 2 powi (binade y - 52))) * 2 powi (binade y - 52)"
      by (intro mult_right_mono) (simp_all only: of_int_le_iff zero_le_power_int zero_le_numeral)
    then show ?thesis
      by (simp only: rnd_pos [OF assms(1)] rnd_pos [OF y] True)
  next
    case False
    then have "binade x + 1 \<le> binade y"
      using binade_mono [OF assms] by simp
    then have "(2::rat) powi (binade x + 1) \<le> 2 powi binade y"
      by (rule powi2_mono)
    then show ?thesis
      using rnd_bounds(2) [OF assms(1)] rnd_bounds(1) [OF y] by linarith
  qed
qed

lemma rnd_0: "rnd 0 = 0"
  by (simp add: rnd_def)

lemma rnd_nonneg:
  assumes "0 \<le> x"
  shows "0 \<le> rnd x"
proof (cases "x = 0")
  case True
  then show ?thesis by (simp add: rnd_0)
next
  case False
  then have "0 < x" using assms by simp
  from rnd_bounds(1) [OF this] show ?thesis
    by (rule order_trans [rotated]) simp
qed

lemma rnd_mono:
  assumes "0 \<le> x" "x \<le> y"
  shows "rnd x \<le> rnd y"
proof (cases "x = 0")
  case True
  then show ?thesis using assms rnd_nonneg [of y] by (simp add: rnd_0)
next
  case False
  then show ?thesis using assms by (intro rnd_mono_pos) simp_all
qed


lemma rnd_exact:
  assumes "0 < x" "x / 2 powi (binade x - 52) = of_int m"
  shows "rnd x = x"
proof -
  have "rnd x = of_int m * 2 powi (binade x - 52)"
    by (simp only: rnd_pos [OF assms(1)] assms(2) roundHalfEven_of_int)
  also have "\<dots> = x"
    by (simp flip: assms(2))
  finally show ?thesis .
qed

lemma rnd_of_nat:
  assumes "n < 2 ^ 53"
  shows "rnd (of_nat n) = of_nat n"
proof (cases "n = 0")
  case True
  then show ?thesis by (simp add: rnd_0)
next
  case False
  let ?x = "of_nat n :: rat"
  have pos: "0 < ?x" using False by simp
  have "2 powi binade ?x \<le> ?x" using binade_bounds(1) [OF pos] .
  also have "?x < 2 ^ 53"
    using assms by (metis of_nat_less_iff of_nat_numeral of_nat_power)
  finally have "(2::rat) powi binade ?x < 2 powi 53" by simp
  then have le: "binade ?x < 53" by (rule powi2_less_imp)
  define k where "k = nat (52 - binade ?x)"
  have e: "binade ?x - 52 = - int k" using le by (simp add: k_def)
  have "?x / 2 powi (binade ?x - 52) = ?x * 2 ^ k"
    by (simp add: e power_int_minus field_simps)
  also have "\<dots> = of_int (int n * 2 ^ k)" by simp
  finally show ?thesis by (rule rnd_exact [OF pos])
qed

subsection \<open>The two thresholds\<close>

text \<open>
  The exact percentage is at least 70 when \<open>7 * d \<le> 3 * c\<close>. The rounded one agrees
  with it for totals up to \<open>10\<^sup>1\<^sup>5\<close>: 7/10 rounds to a double whose hundredfold rounds
  to 70, and a ratio below 7/10 with such a denominator rounds to a smaller double, whose
  hundredfold rounds to less than 70.
\<close>

lemma percent_ge_70_iff:
  fixes c d :: nat
  assumes "0 < c + d"
  shows "(70 \<le> (of_nat c :: rat) / (of_nat c + of_nat d) * 100) \<longleftrightarrow> 7 * d \<le> 3 * c"
proof -
  have pos: "(0::rat) < of_nat c + of_nat d"
    using assms by (metis of_nat_0_less_iff of_nat_add)
  have "(70 \<le> (of_nat c :: rat) / (of_nat c + of_nat d) * 100)
        \<longleftrightarrow> 70 * (of_nat c + of_nat d) \<le> (of_nat c :: rat) * 100"
    using pos by (simp add: pos_le_divide_eq)
  also have "\<dots> \<longleftrightarrow> (of_nat (7 * d) :: rat) \<le> of_nat (3 * c)"
    by (simp add: algebra_simps)
  also have "\<dots> \<longleftrightarrow> 7 * d \<le> 3 * c"
    by (simp only: of_nat_le_iff)
  finally show ?thesis .
qed

lemma rnd_threshold_values:
  "rnd (7 / 10) = 6305039478318694 / 2 ^ 53"
  "rnd (6305039478318694 / 2 ^ 53 * 100) = 70"
  "rnd (7 / 10 - 1 / 10 ^ 16) = 6305039478318693 / 2 ^ 53"
  "rnd (6305039478318693 / 2 ^ 53 * 100) = 4925812092436479 / 2 ^ 46"
  by code_simp+

lemma rounded_percent_ge_70_iff:
  fixes c t :: nat
  assumes "0 < t" "c \<le> t" "t \<le> 10 ^ 15"
  shows "70 \<le> rnd (rnd (of_nat c / of_nat t) * 100) \<longleftrightarrow> 7 * t \<le> 10 * c"
proof
  assume "7 * t \<le> 10 * c"
  then have "(of_nat (7 * t) :: rat) \<le> of_nat (10 * c)" by (simp only: of_nat_le_iff)
  then have "(7 / 10 :: rat) \<le> of_nat c / of_nat t"
    using assms(1) by (simp add: field_simps)
  then have "rnd (7 / 10) \<le> rnd (of_nat c / of_nat t)"
    by (intro rnd_mono) simp_all
  then have "6305039478318694 / 2 ^ 53 * 100 \<le> rnd (of_nat c / of_nat t) * 100"
    by (simp only: rnd_threshold_values(1))
  then have "rnd (6305039478318694 / 2 ^ 53 * 100) \<le> rnd (rnd (of_nat c / of_nat t) * 100)"
    by (intro rnd_mono) simp_all
  then show "70 \<le> rnd (rnd (of_nat c / of_nat t) * 100)"
    by (simp only: rnd_threshold_values(2))
next
  assume ge: "70 \<le> rnd (rnd (of_nat c / of_nat t) * 100)"
  show "7 * t \<le> 10 * c"
  proof (rule ccontr)
    assume "\<not> 7 * t \<le> 10 * c"
    then have "10 * c + 1 \<le> 7 * t" by simp
    then have "(of_nat (10 * c + 1) :: rat) \<le> of_nat (7 * t)" by (simp only: of_nat_le_iff)
    then have 1: "(of_nat c :: rat) / of_nat t \<le> 7 / 10 - 1 / (10 * of_nat t)"
      using assms(1) by (simp add: field_simps)
    have "(of_nat t :: rat) \<le> of_nat (10 ^ 15)" using assms(3) by (simp only: of_nat_le_iff)
    then have "(1::rat) / 10 ^ 16 \<le> 1 / (10 * of_nat t)"
      using assms(1) by (simp add: field_simps)
    with 1 have "(of_nat c :: rat) / of_nat t \<le> 7 / 10 - 1 / 10 ^ 16" by linarith
    then have "rnd (of_nat c / of_nat t) \<le> rnd (7 / 10 - 1 / 10 ^ 16)"
      by (intro rnd_mono) simp_all
    then have "rnd (of_nat c / of_nat t) * 100 \<le> 6305039478318693 / 2 ^ 53 * 100"
      by (simp only: rnd_threshold_values(3))
    moreover have "0 \<le> rnd (of_nat c / of_nat t) * 100"
      using rnd_nonneg [of "of_nat c / of_nat t"] by simp
    ultimately have "rnd (rnd (of_nat c / of_nat t) * 100) \<le> rnd (6305039478318693 / 2 ^ 53 * 100)"
      by (intro rnd_mono)
    then have "rnd (rnd (of_nat c / of_nat t) * 100) \<le> 4925812092436479 / 2 ^ 46"
      by (simp only: rnd_threshold_values(4))
    with ge show False by simp
  qed
qed


lemma calculateResults_small:
  fixes c d :: nat
  assumes "0 < c + d" "c + d \<le> 10 ^ 15"
  shows "calculateResults (of_nat c) (of_nat d) =
           (if 7 * d \<le> 3 * c then
              \<lparr>outcome = AllCooperate, pointsForCooperators = 3, pointsForDefectors = 3\<rparr>
            else if 7 * c \<le> 3 * d then
              \<lparr>outcome = AllDefect, pointsForCooperators = 1, pointsForDefectors = 1\<rparr>
            else
              \<lparr>outcome = Mixed, pointsForCooperators = 0, pointsForDefectors = 5\<rparr>)"
proof -
  have "c + d < 2 ^ 53" using assms(2) by simp
  then have "rnd (of_nat (c + d)) = of_nat (c + d)" by (rule rnd_of_nat)
  then have t: "rnd (of_nat c + of_nat d) = of_nat (c + d)" by simp
  have nz: "(of_nat (c + d) :: rat) \<noteq> 0"
    using assms(1) by (simp only: of_nat_eq_0_iff)
  have co: "70 \<le> rnd (rnd (of_nat c / of_nat (c + d)) * 100) \<longleftrightarrow> 7 * d \<le> 3 * c"
    using rounded_percent_ge_70_iff [of "c + d" c] assms by auto
  have de: "70 \<le> rnd (rnd (of_nat d / of_nat (c + d)) * 100) \<longleftrightarrow> 7 * c \<le> 3 * d"
    using rounded_percent_ge_70_iff [of "c + d" d] assms by auto
  show ?thesis
    unfolding calculateResults_def Let_def t GAME_CONFIG_defs
    using nz co de by simp
qed

text \<open>
  Claim C2, as amended. For vote counts \<open>c\<close>, \<open>d\<close> with \<open>0 < c + d \<le> 10\<^sup>1\<^sup>5\<close>,
  \<open>calculateResults\<close> returns all-cooperate with +3 for both sides exactly when the
  cooperate percentage is at least 70, otherwise all-defect with +1 for both sides exactly
  when the defect percentage is at least 70, otherwise mixed with 0 for cooperators and +5
  for defectors; the percentages are the exact ones. The comparison is inclusive: in
  whole numbers the first case is \<open>7 * d \<le> 3 * c\<close> and the second \<open>7 * c \<le> 3 * d\<close>, so
  7 against 3 is all-cooperate and 3 against 7 is all-defect.
\<close>

theorem calculateResults_thresholds_up_to_10_15:
  fixes c d :: nat
  assumes "0 < c + d" and "c + d \<le> 10 ^ 15"
  shows "calculateResults (of_nat c) (of_nat d) =
           (if 70 \<le> (of_nat c :: rat) / of_nat (c + d) * 100 then
              \<lparr>outcome = AllCooperate, pointsForCooperators = 3, pointsForDefectors = 3\<rparr>
            else if 70 \<le> (of_nat d :: rat) / of_nat (c + d) * 100 then
              \<lparr>outcome = AllDefect, pointsForCooperators = 1, pointsForDefectors = 1\<rparr>
            else
              \<lparr>outcome = Mixed, pointsForCooperators = 0, pointsForDefectors = 5\<rparr>)
         \<and> (outcome (calculateResults (of_nat c) (of_nat d)) = AllCooperate \<longleftrightarrow> 7 * d \<le> 3 * c)
         \<and> (outcome (calculateResults (of_nat c) (of_nat d)) = AllDefect \<longleftrightarrow> 7 * c \<le> 3 * d)
         \<and> calculateResults 7 3 =
              \<lparr>outcome = AllCooperate, pointsForCooperators = 3, pointsForDefectors = 3\<rparr>
         \<and> calculateResults 3 7 =
              \<lparr>outcome = AllDefect, pointsForCooperators = 1, pointsForDefectors = 1\<rparr>"
proof -
  have co: "(70 \<le> (of_nat c :: rat) / of_nat (c + d) * 100) \<longleftrightarrow> 7 * d \<le> 3 * c"
    using percent_ge_70_iff [OF assms(1)] by simp
  have "0 < d + c" using assms(1) by arith
  from percent_ge_70_iff [OF this]
  have de: "(70 \<le> (of_nat d :: rat) / of_nat (c + d) * 100) \<longleftrightarrow> 7 * c \<le> 3 * d"
    by (simp add: add.commute)
  have excl: "\<not> (7 * d \<le> 3 * c \<and> 7 * c \<le> 3 * d)"
    using assms(1) by arith
  note small = calculateResults_small [OF assms]
  have eq: "calculateResults (of_nat c) (of_nat d) =
           (if 70 \<le> (of_nat c :: rat) / of_nat (c + d) * 100 then
              \<lparr>outcome = AllCooperate, pointsForCooperators = 3, pointsForDefectors = 3\<rparr>
            else if 70 \<le> (of_nat d :: rat) / of_nat (c + d) * 100 then
              \<lparr>outcome = AllDefect, pointsForCooperators = 1, pointsForDefectors = 1\<rparr>
            else
              \<lparr>outcome = Mixed, pointsForCooperators = 0, pointsForDefectors = 5\<rparr>)"
    by (simp only: small co de)
  have c1: "outcome (calculateResults (of_nat c) (of_nat d)) = AllCooperate \<longleftrightarrow> 7 * d \<le> 3 * c"
    by (simp add: small)
  have c2: "outcome (calculateResults (of_nat c) (of_nat d)) = AllDefect \<longleftrightarrow> 7 * c \<le> 3 * d"
    using excl by (simp add: small)
  have b1: "calculateResults 7 3 =
              \<lparr>outcome = AllCooperate, pointsForCooperators = 3, pointsForDefectors = 3\<rparr>"
    using calculateResults_small [of 7 3] by simp
  have b2: "calculateResults 3 7 =
              \<lparr>outcome = AllDefect, pointsForCooperators = 1, pointsForDefectors = 1\<rparr>"
    using calculateResults_small [of 3 7] by simp
  from eq c1 c2 b1 b2 show ?thesis by blast
qed

theorem calculateResults_thresholds_up_to_10_15_witness:
  "(0::nat) < 7 + 3 \<and> (7::nat) + 3 \<le> 10 ^ 15
   \<and> outcome (calculateResults (of_nat 7) (of_nat 3)) = AllCooperate
   \<and> outcome (calculateResults (of_nat 2) (of_nat 3)) = Mixed
   \<and> outcome (calculateResults (of_nat 1) (of_nat 9)) = AllDefect"
  using calculateResults_thresholds_up_to_10_15 [of 7 3]
    calculateResults_thresholds_up_to_10_15 [of 2 3]
    calculateResults_thresholds_up_to_10_15 [of 1 9]
  by simp

text \<open>
  The claim as stated, for every pair of counts, fails: the two counts below are whole
  numbers that doubles hold exactly, their total is \<open>2\<^sup>5\<^sup>2\<close>, and the exact cooperate
  percentage is below 70; the quotient is the double nearest to 7/10, its hundredfold
  rounds to 70, and the result is all-cooperate.
\<close>

theorem calculateResults_rounds_up_to_threshold:
  "calculateResults 3152519739159347 1351079888211149 =
     \<lparr>outcome = AllCooperate, pointsForCooperators = 3, pointsForDefectors = 3\<rparr>
   \<and> (3152519739159347 :: rat) / (3152519739159347 + 1351079888211149) * 100 < 70
   \<and> (3152519739159347 :: rat) + 1351079888211149 = 2 ^ 52"
  by code_simp

section \<open>Proofs: streaks and history\<close>

subsection \<open>The sort\<close>

lemma mset_insertBy: "mset (insertBy cmp x ys) = add_mset x (mset ys)"
  by (induction ys) auto

lemma mset_sortBy: "mset (sortBy cmp xs) = mset xs"
  by (induction xs) (auto simp: sortBy_def mset_insertBy)

lemma set_insertBy: "set (insertBy cmp x ys) = insert x (set ys)"
  by (induction ys) auto

lemma set_sortBy: "set (sortBy cmp xs) = set xs"
  by (induction xs) (auto simp: sortBy_def set_insertBy)

lemma sorted_insertBy:
  assumes "dateMs (day x) \<noteq> None" "\<forall>y\<in>set ys. dateMs (day y) \<noteq> None"
    and "sorted_wrt (laterOrSame dateMs) ys"
  shows "sorted_wrt (laterOrSame dateMs) (insertBy (byDayDescending dateMs) x ys)"
  using assms
proof (induction ys)
  case Nil
  then show ?case by simp
next
  case (Cons y ys)
  then show ?case
    by (auto simp: set_insertBy laterOrSame_def byDayDescending_def split: option.splits)
qed

lemma sorted_sortBy:
  assumes "\<forall>y\<in>set xs. dateMs (day y) \<noteq> None"
  shows "sorted_wrt (laterOrSame dateMs) (sortBy (byDayDescending dateMs) xs)"
  using assms
proof (induction xs)
  case Nil
  then show ?case by (simp add: sortBy_def)
next
  case (Cons x xs)
  then have "sorted_wrt (laterOrSame dateMs) (sortBy (byDayDescending dateMs) xs)" by simp
  moreover have "\<forall>y\<in>set (sortBy (byDayDescending dateMs) xs). dateMs (day y) \<noteq> None"
    using Cons.prems by (simp add: set_sortBy)
  moreover have "dateMs (day x) \<noteq> None" using Cons.prems by simp
  ultimately have "sorted_wrt (laterOrSame dateMs) (insertBy (byDayDescending dateMs) x (sortBy (byDayDescending dateMs) xs))"
    by (intro sorted_insertBy) 
  then show ?case by (simp add: sortBy_def)
qed

subsection \<open>The longest-streak scan against the spec\<close>

lemma MS_PER_DAY_pos: "0 < MS_PER_DAY"
  by (simp add: MS_PER_DAY_def)

lemma utcMidnight_diff_div:
  "(utcMidnight a - utcMidnight b) div MS_PER_DAY = a div MS_PER_DAY - b div MS_PER_DAY"
proof -
  have "utcMidnight a - utcMidnight b = (a div MS_PER_DAY - b div MS_PER_DAY) * MS_PER_DAY"
    by (simp add: utcMidnight_def algebra_simps)
  then show ?thesis using MS_PER_DAY_pos by simp
qed

lemma spec_runLengths_nonempty: "spec_runLengths (d # ds) \<noteq> []"
  by (induction ds arbitrary: d) (auto split: list.splits)

lemma foldr_max_nonneg: "0 \<le> foldr max ns (0::int)"
  by (induction ns) auto

text \<open>The scan from an entry on day \<open>p\<close> with a run of \<open>t\<close> entries behind it.\<close>

lemma longestStreakLoop_runs:
  assumes "\<forall>h\<in>set xs. dateMs (day h) \<noteq> None"
    and "longestStreakLoop dateMs xs (Some (Some (utcMidnight tp))) t L = (t', L')"
    and "spec_runLengths (tp div MS_PER_DAY # map (dayIndex dateMs) xs) = n # ns"
    and "0 \<le> L"
  shows "max L' t' = max L (foldr max ((n + t - 1) # ns) 0)"
  using assms
proof (induction xs arbitrary: tp t L n ns)
  case Nil
  then show ?case using foldr_max_nonneg [of "[]"] by auto
next
  case (Cons x xs)
  from Cons.prems(1) obtain tx where tx: "dateMs (day x) = Some tx" by auto
  have dx: "dayIndex dateMs x = tx div MS_PER_DAY" by (simp add: dayIndex_def tx)
  obtain m ms where rl: "spec_runLengths (tx div MS_PER_DAY # map (dayIndex dateMs) xs) = m # ms"
    using spec_runLengths_nonempty by (meson list.exhaust)
  have valid: "\<forall>h\<in>set xs. dateMs (day h) \<noteq> None" using Cons.prems(1) by simp
  show ?case
  proof (cases "tp div MS_PER_DAY - tx div MS_PER_DAY = 1")
    case True
    then have step: "longestStreakLoop dateMs xs (Some (Some (utcMidnight tx))) (t + 1) L = (t', L')"
      using Cons.prems(2) by (simp add: tx utcMidnight_diff_div)
    have "n = m + 1 \<and> ns = ms"
      using Cons.prems(3) True rl by (simp add: dx)
    moreover have "max L' t' = max L (foldr max ((m + (t + 1) - 1) # ms) 0)"
      using Cons.IH [OF valid step rl Cons.prems(4)] .
    ultimately show ?thesis by (simp add: algebra_simps)
  next
    case False
    then have step: "longestStreakLoop dateMs xs (Some (Some (utcMidnight tx))) 1 (max L t) = (t', L')"
      using Cons.prems(2) by (simp add: tx utcMidnight_diff_div)
    have "n = 1 \<and> ns = m # ms"
      using Cons.prems(3) False rl by (simp add: dx)
    moreover have "max L' t' = max (max L t) (foldr max ((m + 1 - 1) # ms) 0)"
      using Cons.IH [OF valid step rl] Cons.prems(4) by simp
    ultimately show ?thesis by (simp add: max.assoc)
  qed
qed

lemma longestStreak_spec:
  assumes "\<forall>h\<in>set xs. dateMs (day h) \<noteq> None"
    and "longestStreakLoop dateMs xs None 0 0 = (t', L')"
  shows "max L' t' = spec_longestStreak (map (dayIndex dateMs) xs)"
proof (cases xs)
  case Nil
  then show ?thesis using assms by (simp add: spec_longestStreak_def)
next
  case (Cons x rest)
  from assms(1) Cons obtain tx where tx: "dateMs (day x) = Some tx" by auto
  have dx: "dayIndex dateMs x = tx div MS_PER_DAY" by (simp add: dayIndex_def tx)
  obtain m ms where rl: "spec_runLengths (tx div MS_PER_DAY # map (dayIndex dateMs) rest) = m # ms"
    using spec_runLengths_nonempty by (meson list.exhaust)
  have valid: "\<forall>h\<in>set rest. dateMs (day h) \<noteq> None" using assms(1) Cons by simp
  have step: "longestStreakLoop dateMs rest (Some (Some (utcMidnight tx))) 1 0 = (t', L')"
    using assms(2) Cons by (simp add: tx)
  have "max L' t' = max 0 (foldr max ((m + 1 - 1) # ms) 0)"
    using longestStreakLoop_runs [OF valid step rl] by simp
  also have "\<dots> = foldr max (m # ms) 0"
    using foldr_max_nonneg [of "m # ms"] by simp
  finally show ?thesis by (simp add: spec_longestStreak_def Cons dx rl)
qed

lemma calculateStreak_longest_spec:
  assumes "\<forall>h\<in>set hist. dateMs (day h) \<noteq> None"
  shows "longestStreak (calculateStreak dateMs now hist) =
         spec_longestStreak (map (dayIndex dateMs) (sortBy (byDayDescending dateMs) hist))"
proof (cases "hist = []")
  case True
  then show ?thesis
    by (simp add: calculateStreak_def spec_longestStreak_def sortBy_def)
next
  case False
  let ?s = "sortBy (byDayDescending dateMs) hist"
  obtain t' L' where loop: "longestStreakLoop dateMs ?s None 0 0 = (t', L')"
    by (cases "longestStreakLoop dateMs ?s None 0 0") auto
  have "\<forall>h\<in>set ?s. dateMs (day h) \<noteq> None" using assms by (simp add: set_sortBy)
  from longestStreak_spec [OF this loop]
  have "max L' t' = spec_longestStreak (map (dayIndex dateMs) ?s)" .
  then show ?thesis using False loop by (simp add: calculateStreak_def Let_def)
qed

subsection \<open>Histories of consecutive days\<close>

lemma utcMidnight_day: "utcMidnight (k * MS_PER_DAY) = k * MS_PER_DAY"
  using MS_PER_DAY_pos by (simp add: utcMidnight_def)

lemma expected_day:
  "utcMidnight (utcMidnight now - i * MS_PER_DAY) = (now div MS_PER_DAY - i) * MS_PER_DAY"
proof -
  have "utcMidnight now - i * MS_PER_DAY = (now div MS_PER_DAY - i) * MS_PER_DAY"
    by (simp add: utcMidnight_def algebra_simps)
  then show ?thesis by (simp only: utcMidnight_day)
qed

lemma day_eq_iff: "(j * MS_PER_DAY = k * MS_PER_DAY) = (j = k)"
  using MS_PER_DAY_pos by simp

lemma day_diff_div: "(j * MS_PER_DAY - k * MS_PER_DAY) div MS_PER_DAY = j - k"
proof -
  have "j * MS_PER_DAY - k * MS_PER_DAY = (j - k) * MS_PER_DAY" by (simp add: algebra_simps)
  then show ?thesis using MS_PER_DAY_pos by simp
qed



lemma day_le_iff: "(j * MS_PER_DAY \<le> k * MS_PER_DAY) = (j \<le> k)"
  using MS_PER_DAY_pos by simp

lemma currentStreakLoop_step:
  "currentStreakLoop dateMs (utcMidnight now) (h # rest) i c =
     (if map_option utcMidnight (dateMs (day h)) = Some ((now div MS_PER_DAY - i) * MS_PER_DAY)
      then currentStreakLoop dateMs (utcMidnight now) rest (i + 1) (c + 1) else c)"
  by (simp add: Let_def expected_day)

lemma MS_PER_DAY_nonzero: "MS_PER_DAY \<noteq> 0"
  by (simp add: MS_PER_DAY_def)

lemmas streak_eval =
  MS_PER_DAY_nonzero calculateStreak_def sortBy_def byDayDescending_def Let_def
  currentStreakLoop_step utcMidnight_day day_eq_iff day_le_iff day_diff_div

lemma three_days:
  assumes "now div MS_PER_DAY = D"
    and "dateMs d1 = Some ((D - 2) * MS_PER_DAY)"
    and "dateMs d2 = Some ((D - 1) * MS_PER_DAY)"
    and "dateMs d3 = Some (D * MS_PER_DAY)"
  shows "calculateStreak dateMs now
           [\<lparr>day = d1, choice = c1\<rparr>, \<lparr>day = d2, choice = c2\<rparr>, \<lparr>day = d3, choice = c3\<rparr>]
         = \<lparr>currentStreak = 3, longestStreak = 3\<rparr>"
  using assms
  by (simp add: streak_eval del: currentStreakLoop.simps(2))

lemma runs_2_3:
  assumes "now div MS_PER_DAY = D"
    and "dateMs d1 = Some ((D - 5) * MS_PER_DAY)"
    and "dateMs d2 = Some ((D - 4) * MS_PER_DAY)"
    and "dateMs d3 = Some ((D - 2) * MS_PER_DAY)"
    and "dateMs d4 = Some ((D - 1) * MS_PER_DAY)"
    and "dateMs d5 = Some (D * MS_PER_DAY)"
  shows "calculateStreak dateMs now
           [\<lparr>day = d1, choice = c1\<rparr>, \<lparr>day = d2, choice = c2\<rparr>, \<lparr>day = d3, choice = c3\<rparr>,
            \<lparr>day = d4, choice = c4\<rparr>, \<lparr>day = d5, choice = c5\<rparr>]
         = \<lparr>currentStreak = 3, longestStreak = 3\<rparr>"
  using assms
  by (simp add: streak_eval del: currentStreakLoop.simps(2))

lemma runs_3_2:
  assumes "now div MS_PER_DAY = D"
    and "dateMs d1 = Some ((D - 5) * MS_PER_DAY)"
    and "dateMs d2 = Some ((D - 4) * MS_PER_DAY)"
    and "dateMs d3 = Some ((D - 3) * MS_PER_DAY)"
    and "dateMs d4 = Some ((D - 1) * MS_PER_DAY)"
    and "dateMs d5 = Some (D * MS_PER_DAY)"
  shows "calculateStreak dateMs now
           [\<lparr>day = d1, choice = c1\<rparr>, \<lparr>day = d2, choice = c2\<rparr>, \<lparr>day = d3, choice = c3\<rparr>,
            \<lparr>day = d4, choice = c4\<rparr>, \<lparr>day = d5, choice = c5\<rparr>]
         = \<lparr>currentStreak = 2, longestStreak = 3\<rparr>"
  using assms
  by (simp add: streak_eval del: currentStreakLoop.simps(2))

text \<open>
  Claim C7. With \<open>D\<close> the day number of today: a history of the three days \<open>D - 2\<close>,
  \<open>D - 1\<close>, \<open>D\<close> gives a current and a longest streak of 3. Two runs of two and
  three days with one day missing between them give a longest streak of 3, and a current
  streak that counts only the run ending today: 3 when the run of three ends today, 2
  when the run of two does. In general, when every day of the history is a valid date,
  the longest streak is the spec's: the history is scanned in descending day order (a
  rearrangement of the history), entries exactly one day apart continue a run, any other
  gap starts a new one, and the maximum is over all runs, the last included.
\<close>

theorem calculateStreak_consecutive_days:
  "(now div MS_PER_DAY = D \<and>
    dateMs d1 = Some ((D - 2) * MS_PER_DAY) \<and>
    dateMs d2 = Some ((D - 1) * MS_PER_DAY) \<and>
    dateMs d3 = Some (D * MS_PER_DAY)
    \<longrightarrow> calculateStreak dateMs now
          [\<lparr>day = d1, choice = c1\<rparr>, \<lparr>day = d2, choice = c2\<rparr>, \<lparr>day = d3, choice = c3\<rparr>]
        = \<lparr>currentStreak = 3, longestStreak = 3\<rparr>)
   \<and> (now div MS_PER_DAY = D \<and>
    dateMs e1 = Some ((D - 5) * MS_PER_DAY) \<and>
    dateMs e2 = Some ((D - 4) * MS_PER_DAY) \<and>
    dateMs e3 = Some ((D - 2) * MS_PER_DAY) \<and>
    dateMs e4 = Some ((D - 1) * MS_PER_DAY) \<and>
    dateMs e5 = Some (D * MS_PER_DAY)
    \<longrightarrow> calculateStreak dateMs now
          [\<lparr>day = e1, choice = c1\<rparr>, \<lparr>day = e2, choice = c2\<rparr>, \<lparr>day = e3, choice = c3\<rparr>,
           \<lparr>day = e4, choice = c4\<rparr>, \<lparr>day = e5, choice = c5\<rparr>]
        = \<lparr>currentStreak = 3, longestStreak = 3\<rparr>)
   \<and> (now div MS_PER_DAY = D \<and>
    dateMs f1 = Some ((D - 5) * MS_PER_DAY) \<and>
    dateMs f2 = Some ((D - 4) * MS_PER_DAY) \<and>
    dateMs f3 = Some ((D - 3) * MS_PER_DAY) \<and>
    dateMs f4 = Some ((D - 1) * MS_PER_DAY) \<and>
    dateMs f5 = Some (D * MS_PER_DAY)
    \<longrightarrow> calculateStreak dateMs now
          [\<lparr>day = f1, choice = c1\<rparr>, \<lparr>day = f2, choice = c2\<rparr>, \<lparr>day = f3, choice = c3\<rparr>,
           \<lparr>day = f4, choice = c4\<rparr>, \<lparr>day = f5, choice = c5\<rparr>]
        = \<lparr>currentStreak = 2, longestStreak = 3\<rparr>)
   \<and> ((\<forall>h\<in>set hist. dateMs (day h) \<noteq> None)
    \<longrightarrow> longestStreak (calculateStreak dateMs now hist)
          = spec_longestStreak (map (dayIndex dateMs) (sortBy (byDayDescending dateMs) hist))
        \<and> mset (sortBy (byDayDescending dateMs) hist) = mset hist
        \<and> sorted_wrt (laterOrSame dateMs) (sortBy (byDayDescending dateMs) hist))"
  using three_days [of now D dateMs d1 d2 d3 c1 c2 c3]
    runs_2_3 [of now D dateMs e1 e2 e3 e4 e5 c1 c2 c3 c4 c5]
    runs_3_2 [of now D dateMs f1 f2 f3 f4 f5 c1 c2 c3 c4 c5]
    calculateStreak_longest_spec [of hist dateMs now]
    mset_sortBy [of "byDayDescending dateMs" hist]
    sorted_sortBy [of hist dateMs]
  by blast

lemmas iso_eval =
  isoDateMs_def isDayString_def isDigit_def digitVal_def daysFromCivil_def daysInMonth_def
  isLeapYear_def MS_PER_DAY_def Let_def

theorem calculateStreak_consecutive_days_witness:
  "calculateStreak isoDateMs 1770822321000
     [\<lparr>day = ''2026-02-09'', choice = Cooperate\<rparr>, \<lparr>day = ''2026-02-10'', choice = Defect\<rparr>,
      \<lparr>day = ''2026-02-11'', choice = Cooperate\<rparr>]
   = \<lparr>currentStreak = 3, longestStreak = 3\<rparr>
   \<and> calculateStreak isoDateMs 1770822321000
     [\<lparr>day = ''2026-02-06'', choice = Cooperate\<rparr>, \<lparr>day = ''2026-02-07'', choice = Defect\<rparr>,
      \<lparr>day = ''2026-02-09'', choice = Cooperate\<rparr>, \<lparr>day = ''2026-02-10'', choice = Defect\<rparr>,
      \<lparr>day = ''2026-02-11'', choice = Cooperate\<rparr>]
   = \<lparr>currentStreak = 3, longestStreak = 3\<rparr>
   \<and> calculateStreak isoDateMs 1770822321000
     [\<lparr>day = ''2026-02-06'', choice = Cooperate\<rparr>, \<lparr>day = ''2026-02-07'', choice = Defect\<rparr>,
      \<lparr>day = ''2026-02-08'', choice = Cooperate\<rparr>, \<lparr>day = ''2026-02-10'', choice = Defect\<rparr>,
      \<lparr>day = ''2026-02-11'', choice = Cooperate\<rparr>]
   = \<lparr>currentStreak = 2, longestStreak = 3\<rparr>
   \<and> longestStreak (calculateStreak isoDateMs 1770822321000
     [\<lparr>day = ''2026-02-11'', choice = Cooperate\<rparr>, \<lparr>day = ''2026-01-31'', choice = Defect\<rparr>,
      \<lparr>day = ''2026-02-01'', choice = Defect\<rparr>])
   = spec_longestStreak [20495, 20485, 20484]"
proof -
  have n: "(1770822321000::int) div MS_PER_DAY = 20495" by (simp add: MS_PER_DAY_def)
  have d: "isoDateMs ''2026-02-06'' = Some ((20495 - 5) * MS_PER_DAY)"
    "isoDateMs ''2026-02-07'' = Some ((20495 - 4) * MS_PER_DAY)"
    "isoDateMs ''2026-02-08'' = Some ((20495 - 3) * MS_PER_DAY)"
    "isoDateMs ''2026-02-09'' = Some ((20495 - 2) * MS_PER_DAY)"
    "isoDateMs ''2026-02-10'' = Some ((20495 - 1) * MS_PER_DAY)"
    "isoDateMs ''2026-02-11'' = Some (20495 * MS_PER_DAY)"
    by (simp_all add: iso_eval)
  have e: "isoDateMs ''2026-01-31'' = Some (20484 * MS_PER_DAY)"
    "isoDateMs ''2026-02-01'' = Some (20485 * MS_PER_DAY)"
    by (simp_all add: iso_eval)
  have s: "map (dayIndex isoDateMs) (sortBy (byDayDescending isoDateMs)
     [\<lparr>day = ''2026-02-11'', choice = Cooperate\<rparr>, \<lparr>day = ''2026-01-31'', choice = Defect\<rparr>,
      \<lparr>day = ''2026-02-01'', choice = Defect\<rparr>]) = [20495, 20485, 20484]"
    by (simp add: sortBy_def byDayDescending_def dayIndex_def d e MS_PER_DAY_def)
  have v: "\<forall>h\<in>set [\<lparr>day = ''2026-02-11'', choice = Cooperate\<rparr>, \<lparr>day = ''2026-01-31'', choice = Defect\<rparr>,
      \<lparr>day = ''2026-02-01'', choice = Defect\<rparr>]. isoDateMs (day h) \<noteq> None"
    by (simp add: d e)
  show ?thesis
    using
      calculateStreak_consecutive_days [where dateMs = isoDateMs and now = 1770822321000
        and D = 20495 and ?d1.0 = "''2026-02-09''" and ?d2.0 = "''2026-02-10''" and ?d3.0 = "''2026-02-11''"
        and ?e1.0 = "''2026-02-06''" and ?e2.0 = "''2026-02-07''" and ?e3.0 = "''2026-02-09''"
        and ?e4.0 = "''2026-02-10''" and ?e5.0 = "''2026-02-11''"
        and ?f1.0 = "''2026-02-06''" and ?f2.0 = "''2026-02-07''" and ?f3.0 = "''2026-02-08''"
        and ?f4.0 = "''2026-02-10''" and ?f5.0 = "''2026-02-11''"
        and hist = "[\<lparr>day = ''2026-02-11'', choice = Cooperate\<rparr>, \<lparr>day = ''2026-01-31'', choice = Defect\<rparr>,
      \<lparr>day = ''2026-02-01'', choice = Defect\<rparr>]"]
      n d v s
    by simp
qed

subsection \<open>updateUserStats\<close>
















text \<open>
  The older copy of the function reads a stored string as a day on which the user chose
  to cooperate, whatever the string is.
\<close>

lemma legacyHistoryItems_defaults_to_cooperate:
  "legacyHistoryItems [''garbage''] newVote =
     [\<lparr>day = ''garbage'', choice = Cooperate\<rparr>, \<lparr>day = day newVote, choice = choice newVote\<rparr>]"
  by (simp add: legacyHistoryItems_def)

text \<open>
  Claim C10. The longest streak of the stats that \<open>updateUserStats\<close> returns is at least
  the longest streak of the stats it was given, whatever the history, the new vote and
  the streak recomputed from the normalized history are.
\<close>

theorem updateUserStats_longestStreak_never_decreases:
  "longestStreak currentStats
     \<le> longestStreak (updateUserStats jsonParse dateMs now currentStats newVote points)"
  by (simp add: updateUserStats_def Let_def)

section \<open>Proofs: the store and the main module\<close>

lemmas io_defs = ret_def throw_def andThen_def tryCatch_def tryFinally_def logError_def

lemmas redis_defs =
  redis_get_def redis_set_def redis_setNX_def redis_del_def redis_incrBy_def redis_mSet_def
  redis_watch_def tx_multi_def tx_queue_def tx_exec_def

lemma yield_quiet [simp]: "sched w = [] \<Longrightarrow> yield w = w"
  by (simp add: yield_def)

lemma sched_logged [simp]: "sched (logged c w) = sched w"
  by (simp add: logged_def)

lemma store_logged [simp]: "store (logged c w) = store w"
  by (simp add: logged_def)

lemma trace_logged [simp]: "trace (logged c w) = trace w @ [c]"
  by (simp add: logged_def)

lemma trace_yield [simp]: "trace (yield w) = trace w"
  by (simp add: yield_def split: list.splits)

lemma yield_logged: "yield (logged c w) = logged c (yield w)"
  by (simp add: yield_def logged_def split: list.splits)

lemma store_yield_logged [simp]: "store (yield (logged c w)) = store (yield w)"
  by (simp add: yield_logged)

lemma callKey_defined [simp]:
  "map_of keys member = Some g \<Longrightarrow> callKey keys member args = ret (g args)"
  by (simp add: callKey_def)

lemma callKey_missing [simp]:
  "map_of keys member = None \<Longrightarrow>
   callKey keys member args = throw (TypeError (''REDIS_KEYS.'' @ member @ '' is not a function''))"
  by (simp add: callKey_def)

lemma isValidChoice_choiceJson [simp]: "isValidChoice (Some (choiceJson c)) = (c \<noteq> NoChoice)"
  by (cases c) (simp_all add: isValidChoice_def)

lemma isInteger_of_int [simp]: "isInteger (of_int n)"
  by (simp add: isInteger_def)

subsection \<open>The key tables and the example store\<close>

lemma REDIS_KEYS_members:
  "map_of REDIS_KEYS ''dailyFinalizeLock'' = None"
  "map_of REDIS_KEYS ''userAwardLock'' = None"
  "map_of REDIS_KEYS ''userScore'' = None"
  "map_of REDIS_KEYS ''userVote'' = Some userVote"
  "map_of REDIS_KEYS ''dailyResults'' = Some dailyResults"
  by (simp_all add: REDIS_KEYS_def)

lemmas key_names = arg_def userVote_def dailyResults_def dailyFinalized_def

lemma settled_facts:
  "truthyField settledVote ''choice''"
  "\<not> truthyField settledVote ''pointsAwarded''"
  "field settledVote ''choice'' = Some (JStr ''cooperate'')"
  "truthy (dailyResultsJson ''2026-02-10'' 7 3)"
  by (simp_all add: settledVote_def truthyField_def dailyResultsJson_def Let_def)

lemma settledStore_lookup:
  "settledStore ''post:p:user:u:day:2026-02-10:vote'' = Some (Json settledVote)"
  "settledStore ''post:p:day:2026-02-10:results'' = Some (Json (dailyResultsJson ''2026-02-10'' 7 3))"
  "settledStore ''post:p:day:2026-02-10:finalized'' = Some (Text ''true'')"
  "settledStore ''post:p:user:u:score'' = Some (Num 10)"
  by (simp_all add: settledStore_def)

subsection \<open>releaseLock\<close>

text \<open>
  \<open>releaseLock\<close> compares the token it reads: when that token is not the caller's it
  writes nothing, whatever else is going on; when it is, the deletion follows as a
  second store call; and run without interference, the lock record is gone in the second
  case and the store is as it was in the first.
\<close>

lemma releaseLock_compares_token_read:
  "(vals (store (yield w)) lockKey \<noteq> Some (Text lockId) \<longrightarrow>
      releaseLock lockKey lockId w = (Inr (), logged (Get lockKey) (yield w)))
   \<and> (vals (store (yield w)) lockKey = Some (Text lockId) \<longrightarrow>
      trace (snd (releaseLock lockKey lockId w)) = trace w @ [Get lockKey, Del lockKey])
   \<and> (sched w = [] \<longrightarrow>
      fst (releaseLock lockKey lockId w) = Inr () \<and>
      vals (store (snd (releaseLock lockKey lockId w))) =
        (if vals (store w) lockKey = Some (Text lockId)
         then (vals (store w))(lockKey := None)
         else vals (store w)))"
  by (simp add: releaseLock_def io_defs redis_get_def redis_del_def db_write_def Let_def yield_logged)

text \<open>
  Claim C9. The claim is that the lock record is deleted if and only if the stored token
  is the caller's, and is left unchanged when a later holder has re-acquired the lock
  after the first one's expiry. The read and the deletion are two store calls. In the run
  below the first holder releases the lock \<^verbatim>\<open>lock\<close> with its own token; the record
  still holds that token when it is read, then expires, and a later holder creates its
  own record before the deletion arrives. The token stored at that moment is the later
  holder's, and the deletion removes its record.
\<close>

theorem releaseLock_deletes_later_holders_lock:
  "vals (store (yield (world0 [''lock'' \<mapsto> Text ''1770822321000-4be7'']
                        \<lparr>sched := [id, laterHolderAcquires]\<rparr>))) ''lock''
     = Some (Text ''1770822321000-4be7'')
   \<and> vals (laterHolderAcquires (store (world0 [''lock'' \<mapsto> Text ''1770822321000-4be7'']))) ''lock''
     = Some (Text ''1770822351500-9c41'')
   \<and> trace (snd (releaseLock ''lock'' ''1770822321000-4be7''
               (world0 [''lock'' \<mapsto> Text ''1770822321000-4be7'']
                  \<lparr>sched := [id, laterHolderAcquires]\<rparr>)))
     = [Get ''lock'', Del ''lock'']
   \<and> vals (store (snd (releaseLock ''lock'' ''1770822321000-4be7''
               (world0 [''lock'' \<mapsto> Text ''1770822321000-4be7'']
                  \<lparr>sched := [id, laterHolderAcquires]\<rparr>)))) ''lock''
     = None"
  by (simp add: releaseLock_def io_defs redis_get_def redis_del_def db_write_def Let_def
        yield_def logged_def world0_def laterHolderAcquires_def)

subsection \<open>handleVote\<close>

text \<open>
  Claim C6. When the vote key of the user and the day already exists at the moment of the
  conditional create, \<open>handleVote\<close> answers that the user already voted. Its first store
  call is that conditional create (no read comes before it), the only other call is a
  read of the existing vote, and the store changes only by what other sessions do:
  without interference it is unchanged, so no counter, history or stats is written. With
  the component's own flag set, the call returns at once without touching the store.
\<close>

theorem handleVote_rejects_duplicate:
  "(chosen \<noteq> NoChoice \<and> map_of keys ''userVote'' = Some voteKeyOf \<and>
    vals (store (yield w)) (voteKeyOf [postId, userId, currentDay]) \<noteq> None \<longrightarrow>
      handleVote keys jsonParse dateMs now postId userId currentDay False chosen w =
        (Inr AlreadyVoted,
         logged (Get (voteKeyOf [postId, userId, currentDay]))
           (yield (logged
              (SetNX (voteKeyOf [postId, userId, currentDay])
                 (Json (JObj [(''choice'', choiceJson chosen), (''timestamp'', JNum (of_int now)),
                              (''day'', JStr currentDay)])) None)
              (yield w)))))
   \<and> (chosen \<noteq> NoChoice \<and> map_of keys ''userVote'' = Some voteKeyOf \<and> sched w = [] \<and>
      vals (store w) (voteKeyOf [postId, userId, currentDay]) \<noteq> None \<longrightarrow>
      fst (handleVote keys jsonParse dateMs now postId userId currentDay False chosen w) = Inr AlreadyVoted \<and>
      store (snd (handleVote keys jsonParse dateMs now postId userId currentDay False chosen w)) = store w)
   \<and> handleVote keys jsonParse dateMs now postId userId currentDay True chosen w = (Inr Ignored, w)"
  by (auto simp: handleVote_def io_defs redis_setNX_def redis_get_def Let_def)

theorem handleVote_rejects_duplicate_witness:
  "handleVote REDIS_KEYS (\<lambda>s. None) isoDateMs 1770822321000 ''p'' ''u'' ''2026-02-10'' False Defect
     (world0 settledStore)
   = (Inr AlreadyVoted,
      logged (Get ''post:p:user:u:day:2026-02-10:vote'')
        (logged (SetNX ''post:p:user:u:day:2026-02-10:vote''
                   (Json (JObj [(''choice'', JStr ''defect''), (''timestamp'', JNum 1770822321000),
                                (''day'', JStr ''2026-02-10'')])) None)
           (world0 settledStore)))
   \<and> store (snd (handleVote REDIS_KEYS (\<lambda>s. None) isoDateMs 1770822321000 ''p'' ''u'' ''2026-02-10''
                    False Defect (world0 settledStore)))
     = store (world0 settledStore)
   \<and> handleVote REDIS_KEYS (\<lambda>s. None) isoDateMs 1770822321000 ''p'' ''u'' ''2026-02-10'' True Defect
       (world0 settledStore)
     = (Inr Ignored, world0 settledStore)"
  using
    handleVote_rejects_duplicate [where keys = REDIS_KEYS and chosen = Defect
      and w = "world0 settledStore" and postId = "''p''" and userId = "''u''"
      and currentDay = "''2026-02-10''" and now = 1770822321000 and jsonParse = "\<lambda>s. None"
      and dateMs = isoDateMs and voteKeyOf = userVote]
    REDIS_KEYS_members(4)
  by (simp add: key_names world0_def settledStore_lookup)

subsection \<open>The key table of the constants module\<close>

lemma finalizeDailyResults_repo_keys:
  "finalizeDailyResults REDIS_KEYS lockId now postId dayId w = (Inr (), w)"
  by (simp add: REDIS_KEYS_members finalizeDailyResults_def io_defs)

text \<open>
  Claim C3. The claim is that \<^verbatim>\<open>dailyFinalizeLock\<close>, \<^verbatim>\<open>userAwardLock\<close> and
  \<^verbatim>\<open>userScore\<close> are members of \<^verbatim>\<open>REDIS_KEYS\<close>, so that the bodies of settlement and
  award are reachable. The table of the constants module has none of the three, and
  \<open>finalizeDailyResults\<close> with that table ends in its catch block before its first store
  call, for every input.
\<close>

theorem REDIS_KEYS_lacks_lock_and_score_keys:
  "map_of REDIS_KEYS ''dailyFinalizeLock'' = None
   \<and> map_of REDIS_KEYS ''userAwardLock'' = None
   \<and> map_of REDIS_KEYS ''userScore'' = None
   \<and> finalizeDailyResults REDIS_KEYS lockId now postId dayId w = (Inr (), w)"
  by (simp add: REDIS_KEYS_members finalizeDailyResults_repo_keys)

subsection \<open>finalizeDailyResults\<close>



subsection \<open>awardUserPoints\<close>

lemmas award_defs =
  awardUserPoints_def awardLocked_def applyAward_def releaseLock_def tx_incrBy_def
  safeJSONParse_def safeJSONParseOr_def incremented_def unchanged_def db_write_def Let_def

lemma award_repo_keys_stops_at_score_key:
  assumes "vals (store w) (userVote [postId, userId, dayId]) = Some (Json vote)"
    and "truthyField vote ''choice''" and "\<not> truthyField vote ''pointsAwarded''"
    and "vals (store w) (dailyResults [postId, dayId]) = Some (Json results)"
    and "truthy results"
    and "sched w = []"
  shows "awardUserPoints REDIS_KEYS finalizeLockId awardLockId now postId userId dayId w =
           (Inr (),
            logged (Get (dailyResults [postId, dayId]))
              (logged (Get (userVote [postId, userId, dayId])) w))"
  using assms
  by (simp add: award_defs REDIS_KEYS_members io_defs redis_defs)

text \<open>
  Claim C1. The claim is that the awarder credits the settled points exactly once. With
  the key table of the constants module it never does: on the settled example store
  (vote cast, results stored, score 10) the invocation reads the vote and the results and
  stops at \<^verbatim>\<open>REDIS_KEYS.userScore\<close>; the score stays 10 and the vote stays unmarked.
\<close>

theorem awardUserPoints_repo_keys_never_awards:
  "trace (snd (awardUserPoints REDIS_KEYS ''1770822321000-f1'' ''1770822321000-a1'' 1770822321000
                 ''p'' ''u'' ''2026-02-10'' (world0 settledStore)))
     = [Get ''post:p:user:u:day:2026-02-10:vote'', Get ''post:p:day:2026-02-10:results'']
   \<and> vals (store (snd (awardUserPoints REDIS_KEYS ''1770822321000-f1'' ''1770822321000-a1''
                 1770822321000 ''p'' ''u'' ''2026-02-10'' (world0 settledStore))))
        ''post:p:user:u:score'' = Some (Num 10)
   \<and> vals (store (snd (awardUserPoints REDIS_KEYS ''1770822321000-f1'' ''1770822321000-a1''
                 1770822321000 ''p'' ''u'' ''2026-02-10'' (world0 settledStore))))
        ''post:p:user:u:day:2026-02-10:vote'' = Some (Json settledVote)"
  using
    award_repo_keys_stops_at_score_key [where postId = "''p''" and userId = "''u''"
      and dayId = "''2026-02-10''" and vote = settledVote
      and results = "dailyResultsJson ''2026-02-10'' 7 3" and w = "world0 settledStore"
      and awardLockId = "''1770822321000-a1''" and finalizeLockId = "''1770822321000-f1''"
      and now = 1770822321000]
  by (simp add: key_names world0_def settledStore_lookup settled_facts)

text \<open>
  Claim C5. The claim is that the awarder's final step applies the increment of the score
  and the awarded flag together in one optimistic transaction and retries it on a
  conflict, so that the award is not left unapplied by the invocation. No invocation
  reaches that step: whatever the store holds and whatever the other sessions do, every
  store call the awarder issues is a read. It never issues \<^verbatim>\<open>WATCH\<close>, \<^verbatim>\<open>MULTI\<close> or
  \<^verbatim>\<open>EXEC\<close>, and it writes neither the score nor the vote.
\<close>

theorem awardUserPoints_repo_keys_never_reaches_transaction:
  "fst (awardUserPoints REDIS_KEYS finalizeLockId awardLockId now postId userId dayId w) = Inr ()
   \<and> list_all isRead
       (drop (length (trace w))
          (trace (snd (awardUserPoints REDIS_KEYS finalizeLockId awardLockId now postId userId dayId w))))
   \<and> take (length (trace w))
       (trace (snd (awardUserPoints REDIS_KEYS finalizeLockId awardLockId now postId userId dayId w)))
     = trace w"
  by (simp add: awardUserPoints_def REDIS_KEYS_members finalizeDailyResults_repo_keys io_defs
        redis_get_def Let_def)

text \<open>
  The block that is never reached (lines 250 to 254 of the main module), taken by
  itself: the increment and the marked vote are queued in one transaction that watches
  both keys. If neither key was written between the \<^verbatim>\<open>WATCH\<close> and the \<^verbatim>\<open>EXEC\<close>,
  the queue runs; if one was, it is discarded. In both cases the block ends after its one
  \<^verbatim>\<open>EXEC\<close>: it has no loop, and the result of \<^verbatim>\<open>exec()\<close> is not looked at.
\<close>

lemma applyAward_single_attempt:
  "points = Some (JNum (of_int n)) \<Longrightarrow>
     trace (snd (applyAward voteKey scoreKey points awarded w)) =
       trace w @ [Watch [voteKey, scoreKey], Multi, Queue (CIncrBy scoreKey n),
                  Queue (CSet voteKey (Json awarded)),
                  Exec (version (store (yield (yield (yield (yield (yield w)))))) voteKey
                          = version (store (yield w)) voteKey \<and>
                        version (store (yield (yield (yield (yield (yield w)))))) scoreKey
                          = version (store (yield w)) scoreKey)]
     \<and> store (snd (applyAward voteKey scoreKey points awarded w)) =
         (if version (store (yield (yield (yield (yield (yield w)))))) voteKey
               = version (store (yield w)) voteKey \<and>
             version (store (yield (yield (yield (yield (yield w)))))) scoreKey
               = version (store (yield w)) scoreKey
          then runCmd (CSet voteKey (Json awarded))
                 (runCmd (CIncrBy scoreKey n) (store (yield (yield (yield (yield (yield w)))))))
          else store (yield (yield (yield (yield (yield w))))))"
  by (simp add: applyAward_def tx_incrBy_def io_defs redis_defs unchanged_def Let_def yield_logged)

subsection \<open>handleVote on a new vote\<close>

text \<open>
  With the same table \<^verbatim>\<open>handleVote\<close> stores the vote, the counter and the history, reads
  the statistics and then fails at \<^verbatim>\<open>REDIS_KEYS.userScore\<close>: the statistics are not
  written and the user is told the vote failed.
\<close>

lemma handleVote_repo_keys_fails_after_writes:
  "fst (handleVote REDIS_KEYS jsonParse dateMs 1770822321000 ''p'' ''u'' ''2026-02-11'' False Cooperate
          (world0 Map.empty)) = Inr Failed
   \<and> trace (snd (handleVote REDIS_KEYS jsonParse dateMs 1770822321000 ''p'' ''u'' ''2026-02-11'' False
                   Cooperate (world0 Map.empty)))
     = [SetNX ''post:p:user:u:day:2026-02-11:vote''
          (Json (JObj [(''choice'', JStr ''cooperate''), (''timestamp'', JNum 1770822321000),
                       (''day'', JStr ''2026-02-11'')])) None,
        IncrBy ''post:p:day:2026-02-11:cooperate'' 1,
        Get ''post:p:user:u:history'',
        Set ''post:p:user:u:history''
          (Json (JArr [JObj [(''day'', JStr ''2026-02-11''), (''choice'', JStr ''cooperate'')]])),
        Get ''post:p:user:u:stats'']"
  by (simp add: handleVote_def recordVote_def REDIS_KEYS_def callKey_def io_defs redis_defs
        key_names userStats_def userHistory_def dailyCooperateCount_def
        world0_def db_write_def incremented_def safeJSONParseOr_def itemJson_def
        isValidChoice_def Let_def)

end
